theory Spec2Isabelle
  imports Complex_Main "HOL-Library.Word"
begin

section \<open>Strings\<close>

text \<open>
  A JavaScript string is a sequence of UTF-16 code units. Concatenation (\<open>+\<close>, \<open>+=\<close>,
  template literals) is list append, \<open>s.length\<close> is the list's length.
  \<open>str\<close> embeds an ASCII literal of the source.
\<close>

type_synonym jschar = "16 word"
type_synonym jsstring = "jschar list"

definition str :: "string \<Rightarrow> jsstring" where
  "str s = map of_char s"

text \<open>
  \<open>String.prototype.trimEnd\<close> removes the trailing run of WhiteSpace and LineTerminator
  code points (ECMAScript: TAB, VT, FF, ZWNBSP, the Unicode category Zs, and LF, CR, LS,
  PS). All of them lie in the Basic Multilingual Plane, so the test is on one code unit.
\<close>

definition whiteSpaceUnits :: "jschar list" where
  "whiteSpaceUnits =
     [0x0009, 0x000A, 0x000B, 0x000C, 0x000D, 0x0020, 0x00A0, 0x1680,
      0x2000, 0x2001, 0x2002, 0x2003, 0x2004, 0x2005, 0x2006, 0x2007,
      0x2008, 0x2009, 0x200A, 0x2028, 0x2029, 0x202F, 0x205F, 0x3000, 0xFEFF]"

definition isWhiteSpace :: "jschar \<Rightarrow> bool" where
  "isWhiteSpace c = (c \<in> set whiteSpaceUnits)"

definition trimEnd :: "jsstring \<Rightarrow> jsstring" where
  "trimEnd s = rev (dropWhile isWhiteSpace (rev s))"

section \<open>The data of \<open>command.ts\<close>\<close>

text \<open>\<open>SPAWN_MISSING_EXE_CODE\<close>\<close>

definition SPAWN_MISSING_EXE_CODE :: int where
  "SPAWN_MISSING_EXE_CODE = - 2"

text \<open>
  The exported types. \<open>FluentCommandSuccess = SpawnInfo & {...}\<close> and
  \<open>FluentCommandError = FluentCommandSuccess & {code?, signal?}\<close> are record extensions;
  an optional property is an \<open>option\<close>, \<open>None\<close> when the property is absent.
  A \<open>NodeJS.Signals\<close> value is the signal's name.
\<close>

record SpawnInfo =
  executable :: jsstring
  commandArgs :: "jsstring list"
  cwd :: jsstring

record FluentCommandSuccess = SpawnInfo +
  duration :: real
  "output" :: jsstring
  stderr :: jsstring
  stdout :: jsstring

record FluentCommandError = FluentCommandSuccess +
  code :: "int option"
  signal :: "jsstring option"

text \<open>
  The value a \<open>ResultAsync<FluentCommandSuccess, FluentCommandError>\<close> settles to:
  \<open>Ok\<close> is the Success outcome, \<open>Err\<close> the Failure outcome.
\<close>

datatype outcome = Ok FluentCommandSuccess | Err FluentCommandError

text \<open>
  The private fields of class \<open>FluentCommand\<close> (\<open>#executable\<close> is \<open>p_executable\<close>, and
  so on), with the initial values of the class body. A callback is known by an
  identifier of type \<open>'h\<close>; a handler slot that is \<open>undefined\<close> is \<open>None\<close>.
  \<open>number | null\<close> and \<open>NodeJS.Signals | null\<close> are options.
\<close>

record 'h FluentCommand =
  p_executable :: jsstring
  p_commandArgs :: "jsstring list"
  p_startTime :: real
  p_stdoutContents :: jsstring
  p_stderrContents :: jsstring
  p_outputContents :: jsstring
  p_code :: "int option"
  p_signal :: "jsstring option"
  p_cwdPath :: jsstring
  p_extraCwdPathPieces :: "jsstring list"
  p_resolvedCwd :: jsstring
  p_spawnHandler :: "'h option"
  p_stdoutHandler :: "'h option"
  p_stderrHandler :: "'h option"
  p_outputHandler :: "'h option"
  p_shouldBeSilent :: bool

text \<open>\<open>constructor(executable, ...initialArgs)\<close> and \<open>fcmd\<close>\<close>

definition new_FluentCommand :: "jsstring \<Rightarrow> jsstring list \<Rightarrow> 'h FluentCommand" where
  "new_FluentCommand executable' initialArgs =
     \<lparr> p_executable = executable',
       p_commandArgs = initialArgs,
       p_startTime = 0,
       p_stdoutContents = [],
       p_stderrContents = [],
       p_outputContents = [],
       p_code = None,
       p_signal = None,
       p_cwdPath = [],
       p_extraCwdPathPieces = [],
       p_resolvedCwd = [],
       p_spawnHandler = None,
       p_stdoutHandler = None,
       p_stderrHandler = None,
       p_outputHandler = None,
       p_shouldBeSilent = True \<rparr>"

definition fcmd :: "jsstring \<Rightarrow> jsstring list \<Rightarrow> 'h FluentCommand" where
  "fcmd executable' initialArgs = new_FluentCommand executable' initialArgs"

section \<open>The builder\<close>

text \<open>\<open>#addArgs\<close>: \<open>this.#commandArgs.push(...extraArgs)\<close>\<close>

definition addArgs :: "jsstring list \<Rightarrow> 'h FluentCommand \<Rightarrow> 'h FluentCommand" where
  "addArgs extraArgs s = s\<lparr>p_commandArgs := p_commandArgs s @ extraArgs\<rparr>"

text \<open>
  The optional parameter \<open>optionValue?: string | number\<close>. The type of numbers is a
  parameter \<open>'n\<close>, and \<open>Number.prototype.toString\<close> a parameter \<open>toString\<close> of the
  functions that call it.
\<close>

datatype 'n optionValue = Undefined | StringValue jsstring | NumberValue 'n

text \<open>\<open>#addOptionPair\<close>; \<open>"-".repeat(dashes)\<close> is \<open>dashes\<close> copies of the literal.\<close>

definition addOptionPair ::
  "('n \<Rightarrow> jsstring) \<Rightarrow> nat \<Rightarrow> jsstring \<Rightarrow> 'n optionValue \<Rightarrow> 'h FluentCommand \<Rightarrow> 'h FluentCommand"
where
  "addOptionPair toString dashes optionKey optionValue s =
     (let s1 = (if length optionKey > 0
                then (let dashedOption = concat (replicate dashes (str ''-'')) @ optionKey
                      in addArgs [dashedOption] s)
                else s)
      in case optionValue of
           StringValue v \<Rightarrow> if length v > 0 then addArgs [v] s1 else s1
         | NumberValue n \<Rightarrow> addArgs [toString n] s1
         | Undefined \<Rightarrow> s1)"

text \<open>The public chainable methods; each returns \<open>this\<close>, here the updated object.\<close>

definition args :: "jsstring \<Rightarrow> jsstring list \<Rightarrow> 'h FluentCommand \<Rightarrow> 'h FluentCommand" where
  "args anArg extraArgs s = addArgs (anArg # extraArgs) s"

definition cwd_method :: "jsstring \<Rightarrow> jsstring list \<Rightarrow> 'h FluentCommand \<Rightarrow> 'h FluentCommand" where
  "cwd_method cwdPath extraCwdPathPieces s =
     s\<lparr>p_cwdPath := cwdPath, p_extraCwdPathPieces := extraCwdPathPieces\<rparr>"

definition opt ::
  "('n \<Rightarrow> jsstring) \<Rightarrow> jsstring \<Rightarrow> 'n optionValue \<Rightarrow> 'h FluentCommand \<Rightarrow> 'h FluentCommand"
where
  "opt toString optionKey optionValue s = addOptionPair toString 1 optionKey optionValue s"

definition option ::
  "('n \<Rightarrow> jsstring) \<Rightarrow> jsstring \<Rightarrow> 'n optionValue \<Rightarrow> 'h FluentCommand \<Rightarrow> 'h FluentCommand"
where
  "option toString optionKey optionValue s = addOptionPair toString 2 optionKey optionValue s"

definition onSpawn :: "'h \<Rightarrow> 'h FluentCommand \<Rightarrow> 'h FluentCommand" where
  "onSpawn spawnHandler s = s\<lparr>p_spawnHandler := Some spawnHandler\<rparr>"

definition onStdout :: "'h \<Rightarrow> 'h FluentCommand \<Rightarrow> 'h FluentCommand" where
  "onStdout stdoutHandler s = s\<lparr>p_stdoutHandler := Some stdoutHandler\<rparr>"

definition onStderr :: "'h \<Rightarrow> 'h FluentCommand \<Rightarrow> 'h FluentCommand" where
  "onStderr stderrHandler s = s\<lparr>p_stderrHandler := Some stderrHandler\<rparr>"

definition onOutput :: "'h \<Rightarrow> 'h FluentCommand \<Rightarrow> 'h FluentCommand" where
  "onOutput outputHandler s = s\<lparr>p_outputHandler := Some outputHandler\<rparr>"

text \<open>
  A chain of builder calls, \<open>fcmd(...).opt(...).args(...)\<close>: the calls in the order
  written, each applied to the object the previous one returned.
\<close>

datatype ('h, 'n) builderCall =
    Args jsstring "jsstring list"
  | Cwd jsstring "jsstring list"
  | Opt jsstring "'n optionValue"
  | Option jsstring "'n optionValue"
  | OnSpawn 'h
  | OnStdout 'h
  | OnStderr 'h
  | OnOutput 'h

fun invoke ::
  "('n \<Rightarrow> jsstring) \<Rightarrow> ('h, 'n) builderCall \<Rightarrow> 'h FluentCommand \<Rightarrow> 'h FluentCommand"
where
  "invoke toString (Args anArg extraArgs) s = args anArg extraArgs s"
| "invoke toString (Cwd cwdPath extraCwdPathPieces) s = cwd_method cwdPath extraCwdPathPieces s"
| "invoke toString (Opt optionKey optionValue) s = opt toString optionKey optionValue s"
| "invoke toString (Option optionKey optionValue) s = option toString optionKey optionValue s"
| "invoke toString (OnSpawn h) s = onSpawn h s"
| "invoke toString (OnStdout h) s = onStdout h s"
| "invoke toString (OnStderr h) s = onStderr h s"
| "invoke toString (OnOutput h) s = onOutput h s"

definition chain ::
  "('n \<Rightarrow> jsstring) \<Rightarrow> ('h, 'n) builderCall list \<Rightarrow> 'h FluentCommand \<Rightarrow> 'h FluentCommand"
where
  "chain toString calls s = foldl (\<lambda>s' c. invoke toString c s') s calls"

text \<open>
  The tokens a call contributes, as the specification words it: \<open>args\<close> its tokens
  verbatim; \<open>opt\<close> the key behind one dash when the key is non-empty, then the value as
  a token of its own when it is a non-empty string or a number; \<open>option\<close> the same
  behind two dashes; every other call nothing.
\<close>

definition spec_keyToken :: "string \<Rightarrow> jsstring \<Rightarrow> jsstring list" where
  "spec_keyToken prefix k = (if k = [] then [] else [str prefix @ k])"

fun spec_valueToken :: "('n \<Rightarrow> jsstring) \<Rightarrow> 'n optionValue \<Rightarrow> jsstring list" where
  "spec_valueToken toString Undefined = []"
| "spec_valueToken toString (StringValue v) = (if v = [] then [] else [v])"
| "spec_valueToken toString (NumberValue n) = [toString n]"

fun spec_tokens :: "('n \<Rightarrow> jsstring) \<Rightarrow> ('h, 'n) builderCall \<Rightarrow> jsstring list" where
  "spec_tokens toString (Args a rest) = a # rest"
| "spec_tokens toString (Opt k v) = spec_keyToken ''-'' k @ spec_valueToken toString v"
| "spec_tokens toString (Option k v) = spec_keyToken ''--'' k @ spec_valueToken toString v"
| "spec_tokens toString _ = []"

section \<open>The result projector\<close>

text \<open>
  \<open>#commandSuccess\<close>. \<open>performance.now()\<close> is the argument \<open>now\<close>: the clock reading
  at the moment of the call.
\<close>

definition commandSuccess :: "real \<Rightarrow> 'h FluentCommand \<Rightarrow> FluentCommandSuccess" where
  "commandSuccess now s =
     \<lparr> executable = p_executable s,
       commandArgs = p_commandArgs s,
       cwd = p_resolvedCwd s,
       duration = now - p_startTime s,
       output = trimEnd (p_outputContents s),
       stderr = trimEnd (p_stderrContents s),
       stdout = trimEnd (p_stdoutContents s) \<rparr>"

text \<open>
  \<open>#commandError\<close>: the success record, to which \<open>code\<close> and \<open>signal\<close> are added
  when the fields are not \<open>null\<close>.
\<close>

definition commandError :: "real \<Rightarrow> 'h FluentCommand \<Rightarrow> FluentCommandError" where
  "commandError now s =
     (let metaData = FluentCommandSuccess.extend (commandSuccess now s)
                       (FluentCommandError.fields None None);
          metaData1 = (case p_code s of
                         Some c \<Rightarrow> metaData\<lparr>code := Some c\<rparr>
                       | None \<Rightarrow> metaData);
          metaData2 = (case p_signal s of
                         Some sg \<Rightarrow> metaData1\<lparr>signal := Some sg\<rparr>
                       | None \<Rightarrow> metaData1)
      in metaData2)"

section \<open>The process executor\<close>

text \<open>
  What an execution does to the outside, in the order it does it: the call of
  \<open>spawn(executable, commandArgs, {cwd, windowsHide: true})\<close>, the calls of the
  registered callbacks with their argument, and \<open>process[source].write(chunk)\<close>.
  A callback is opaque: it is assumed to return normally and not to call back into
  the command object.
\<close>

datatype source = Stdout | Stderr

datatype 'h effect =
    SpawnProcess jsstring "jsstring list" jsstring
  | CallSpawnHandler 'h SpawnInfo
  | CallOutputHandler 'h jsstring
  | ProcessWrite source jsstring

text \<open>
  One execution: the command object, the effects so far, and the settlement of the
  returned \<open>ResultAsync\<close> (\<open>None\<close> while it is pending).
\<close>

record 'h world =
  obj :: "'h FluentCommand"
  trace :: "'h effect list"
  promise :: "outcome option"

text \<open>\<open>#onChunk\<close>\<close>

definition onChunk :: "source \<Rightarrow> jsstring \<Rightarrow> 'h world \<Rightarrow> 'h world" where
  "onChunk source' chunk w =
     (let s = obj w;
          handler = p_stdoutHandler s;
          (handler, s) =
             (if source' = Stdout
              then (p_stdoutHandler s, s\<lparr>p_stdoutContents := p_stdoutContents s @ chunk\<rparr>)
              else if source' = Stderr
              then (p_stderrHandler s, s\<lparr>p_stderrContents := p_stderrContents s @ chunk\<rparr>)
              else (handler, s));
          s = s\<lparr>p_outputContents := p_outputContents s @ chunk\<rparr>;
          calls1 = (case handler of Some h \<Rightarrow> [CallOutputHandler h chunk] | None \<Rightarrow> []);
          calls2 = (case p_outputHandler s of
                      Some h \<Rightarrow> [CallOutputHandler h chunk] | None \<Rightarrow> []);
          writes = (if \<not> p_shouldBeSilent s then [ProcessWrite source' chunk] else [])
      in w\<lparr>obj := s, trace := trace w @ calls1 @ calls2 @ writes\<rparr>)"

text \<open>\<open>#onSpawn\<close>\<close>

definition p_onSpawn :: "'h world \<Rightarrow> 'h world" where
  "p_onSpawn w =
     (case p_spawnHandler (obj w) of
        Some h \<Rightarrow>
          w\<lparr>trace := trace w @
               [CallSpawnHandler h
                  \<lparr> executable = p_executable (obj w),
                    commandArgs = p_commandArgs (obj w),
                    cwd = p_resolvedCwd (obj w) \<rparr>]\<rparr>
      | None \<Rightarrow> w)"

text \<open>
  The value a rejection carries, as far as the error mapper looks at it:
  \<open>err != null\<close>, \<open>typeof err === "object"\<close>, \<open>"code" in err\<close>,
  \<open>typeof err.code === "string"\<close>. The second argument of \<open>Object\<close> is the text that
  \<open>${error.message}\<close> renders. \<open>reject()\<close> without an argument rejects with \<open>Nullish\<close>.
\<close>

datatype codeProperty = CodeMissing | CodeNotString | CodeString jsstring

datatype rejection = Nullish | NotObject | Object codeProperty jsstring

text \<open>
  The second argument of \<open>ResultAsync.fromThrowable\<close>: the error mapper. It returns the
  Failure payload; its changes to the object and its effects stay in the world.
\<close>

definition errorMapper :: "rejection \<Rightarrow> real \<Rightarrow> 'h world \<Rightarrow> 'h world \<times> FluentCommandError" where
  "errorMapper err now w =
     (let w1 = (case err of
                  Object (CodeString errorCode) message \<Rightarrow>
                    onChunk Stderr (errorCode @ str '': '' @ message)
                      (w\<lparr>obj := (obj w)\<lparr>p_code := Some SPAWN_MISSING_EXE_CODE\<rparr>\<rparr>)
                | _ \<Rightarrow> w)
      in (w1, commandError now (obj w1)))"

text \<open>
  \<open>resolve\<close> and \<open>reject\<close> of the promise: the first call settles, every later call
  does nothing. A rejection runs the error mapper and settles the \<open>ResultAsync\<close> with
  its result; the mapper is taken to run before the next event is delivered.
\<close>

definition resolve :: "FluentCommandSuccess \<Rightarrow> 'h world \<Rightarrow> 'h world" where
  "resolve v w = (case promise w of None \<Rightarrow> w\<lparr>promise := Some (Ok v)\<rparr> | Some _ \<Rightarrow> w)"

definition reject :: "rejection \<Rightarrow> real \<Rightarrow> 'h world \<Rightarrow> 'h world" where
  "reject err now w =
     (case promise w of
        None \<Rightarrow> (let (w1, e) = errorMapper err now w in w1\<lparr>promise := Some (Err e)\<rparr>)
      | Some _ \<Rightarrow> w)"

text \<open>The listener of \<open>"close"\<close>\<close>

definition onClose :: "real \<Rightarrow> int option \<Rightarrow> jsstring option \<Rightarrow> 'h world \<Rightarrow> 'h world" where
  "onClose now code' signal' w =
     (let w1 = w\<lparr>obj := (obj w)\<lparr>p_code := code', p_signal := signal'\<rparr>\<rparr>
      in if code' = Some 0 then resolve (commandSuccess now (obj w1)) w1
         else reject Nullish now w1)"

text \<open>
  The events the child process raises, each with the clock reading at its delivery:
  \<open>"spawn"\<close>, \<open>"data"\<close> on one of the two streams (decoded, \<open>setEncoding("utf8")\<close>),
  \<open>"error"\<close> with the error, \<open>"close"\<close> with the exit code and the signal (each
  \<open>null\<close> or a value). An exception thrown by \<open>spawn\<close> itself rejects the promise as
  an \<open>"error"\<close> event before any other does.
\<close>

datatype procEvent =
    SpawnEvent
  | DataEvent source jsstring
  | ErrorEvent rejection
  | CloseEvent "int option" "jsstring option"

fun deliver :: "real \<times> procEvent \<Rightarrow> 'h world \<Rightarrow> 'h world" where
  "deliver (now, SpawnEvent) w = p_onSpawn w"
| "deliver (now, DataEvent source' chunk) w = onChunk source' chunk w"
| "deliver (now, ErrorEvent err) w = reject err now w"
| "deliver (now, CloseEvent code' signal') w = onClose now code' signal' w"

text \<open>
  What the call \<open>cwd()\<close> of \<open>node:process\<close> does inside the executor: it returns the
  current directory, or it throws (the directory no longer exists, for one). The throw
  happens inside the promise executor, so it rejects the promise with the thrown value
  before \<open>#resolvedCwd\<close> is assigned and before \<open>spawn\<close> is called; the second
  argument of \<open>CwdThrows\<close> is the clock reading when the error mapper then runs.
\<close>

datatype cwdResult = CwdReturns jsstring | CwdThrows rejection real

text \<open>
  \<open>#runOrRead\<close>, on the events of the child in their order of delivery. \<open>resolvePath\<close>
  is \<open>resolve\<close> of the package \<open>pathe\<close>, on the list of its arguments; \<open>processCwd\<close>
  is the outcome of the call \<open>cwd()\<close>; \<open>t0\<close> is the clock at the start. When \<open>cwd()\<close>
  throws there is no child process and no listener, so no event is ever delivered.
\<close>

definition runOrRead ::
  "(jsstring list \<Rightarrow> jsstring) \<Rightarrow> cwdResult \<Rightarrow> real \<Rightarrow> (real \<times> procEvent) list \<Rightarrow>
     'h FluentCommand \<Rightarrow> 'h world"
where
  "runOrRead resolvePath processCwd t0 events s =
     (let s = s\<lparr>p_startTime := t0\<rparr>
      in case processCwd of
           CwdThrows err now \<Rightarrow> reject err now \<lparr> obj = s, trace = [], promise = None \<rparr>
         | CwdReturns dir \<Rightarrow>
             (let s = s\<lparr>p_resolvedCwd :=
                         resolvePath (resolvePath [dir] # p_cwdPath s # p_extraCwdPathPieces s)\<rparr>;
                  w = \<lparr> obj = s,
                        trace = [SpawnProcess (p_executable s) (p_commandArgs s) (p_resolvedCwd s)],
                        promise = None \<rparr>
              in foldl (\<lambda>w' e. deliver e w') w events))"

text \<open>The terminal operations\<close>

definition run ::
  "(jsstring list \<Rightarrow> jsstring) \<Rightarrow> cwdResult \<Rightarrow> real \<Rightarrow> (real \<times> procEvent) list \<Rightarrow>
     'h FluentCommand \<Rightarrow> 'h world"
where
  "run resolvePath processCwd t0 events s =
     runOrRead resolvePath processCwd t0 events (s\<lparr>p_shouldBeSilent := False\<rparr>)"

definition read ::
  "(jsstring list \<Rightarrow> jsstring) \<Rightarrow> cwdResult \<Rightarrow> real \<Rightarrow> (real \<times> procEvent) list \<Rightarrow>
     'h FluentCommand \<Rightarrow> 'h world"
where
  "read resolvePath processCwd t0 events s =
     runOrRead resolvePath processCwd t0 events (s\<lparr>p_shouldBeSilent := True\<rparr>)"

section \<open>Vocabulary of the properties\<close>

text \<open>
  The call of a handler slot with a chunk (no call when the slot is empty), and the
  mirroring of a chunk to the stream of the controlling process (none when silent).
\<close>

definition invocation :: "'h option \<Rightarrow> jsstring \<Rightarrow> 'h effect list" where
  "invocation slot chunk = (case slot of Some h \<Rightarrow> [CallOutputHandler h chunk] | None \<Rightarrow> [])"

definition mirrored :: "bool \<Rightarrow> source \<Rightarrow> jsstring \<Rightarrow> 'h effect list" where
  "mirrored silent src chunk = (if silent then [] else [ProcessWrite src chunk])"

text \<open>The events that settle a pending promise, and the effects that are writes.\<close>

fun settles :: "procEvent \<Rightarrow> bool" where
  "settles (ErrorEvent err) = True"
| "settles (CloseEvent c sg) = True"
| "settles ev = False"

fun isProcessWrite :: "'h effect \<Rightarrow> bool" where
  "isProcessWrite (ProcessWrite src chunk) = True"
| "isProcessWrite e = False"

text \<open>
  What reaches the object during an execution, read off the events alone: the spawn
  notification and the chunks. A chunk is the text of a \<open>"data"\<close> event or, on the
  first settling event when that is an error with a string code, the diagnostic line.
  The flag says whether the promise is still pending.
\<close>

datatype arrival = Spawned | Chunk source jsstring

fun spec_arrivals :: "bool \<Rightarrow> (real \<times> procEvent) list \<Rightarrow> arrival list" where
  "spec_arrivals pending [] = []"
| "spec_arrivals pending ((now, SpawnEvent) # evs) = Spawned # spec_arrivals pending evs"
| "spec_arrivals pending ((now, DataEvent src chunk) # evs) =
     Chunk src chunk # spec_arrivals pending evs"
| "spec_arrivals pending ((now, CloseEvent c sg) # evs) = spec_arrivals False evs"
| "spec_arrivals pending ((now, ErrorEvent err) # evs) =
     (if pending
      then (case err of
              Object (CodeString errorCode) message \<Rightarrow>
                [Chunk Stderr (errorCode @ str '': '' @ message)]
            | _ \<Rightarrow> [])
      else []) @ spec_arrivals False evs"

fun chunksOf :: "source \<Rightarrow> arrival list \<Rightarrow> jsstring list" where
  "chunksOf src [] = []"
| "chunksOf src (Spawned # as) = chunksOf src as"
| "chunksOf src (Chunk src' chunk # as) =
     (if src' = src then chunk # chunksOf src as else chunksOf src as)"

fun allChunks :: "arrival list \<Rightarrow> jsstring list" where
  "allChunks [] = []"
| "allChunks (Spawned # as) = allChunks as"
| "allChunks (Chunk src chunk # as) = chunk # allChunks as"

fun writesOf :: "arrival list \<Rightarrow> 'h effect list" where
  "writesOf [] = []"
| "writesOf (Spawned # as) = writesOf as"
| "writesOf (Chunk src chunk # as) = ProcessWrite src chunk # writesOf as"

text \<open>
  The arrivals of a whole execution: those of its events when \<open>cwd()\<close> returned; when it
  threw, those of the one rejection, as of an error with no event before or after it.
\<close>

fun spec_execution :: "cwdResult \<Rightarrow> (real \<times> procEvent) list \<Rightarrow> arrival list" where
  "spec_execution (CwdReturns dir) evs = spec_arrivals True evs"
| "spec_execution (CwdThrows err now) evs = spec_arrivals True [(now, ErrorEvent err)]"

fun isSpawnProcess :: "'h effect \<Rightarrow> bool" where
  "isSpawnProcess (SpawnProcess exe as dir) = True"
| "isSpawnProcess e = False"

text \<open>
  The effects an arrival is expected to cause on a command with the given handler
  slots: the stream's own handler, then the combined handler, then the mirror.
\<close>

fun spec_effects :: "'h FluentCommand \<Rightarrow> arrival \<Rightarrow> 'h effect list" where
  "spec_effects s Spawned =
     (case p_spawnHandler s of
        Some h \<Rightarrow> [CallSpawnHandler h \<lparr> executable = p_executable s,
                     commandArgs = p_commandArgs s, cwd = p_resolvedCwd s \<rparr>]
      | None \<Rightarrow> [])"
| "spec_effects s (Chunk src chunk) =
     invocation (case src of Stdout \<Rightarrow> p_stdoutHandler s | Stderr \<Rightarrow> p_stderrHandler s) chunk @
     invocation (p_outputHandler s) chunk @
     mirrored (p_shouldBeSilent s) src chunk"

text \<open>
  The object as the executor leaves it before the first event, and the call of
  \<open>spawn\<close> it makes: none, and no resolved directory, when \<open>cwd()\<close> threw.
\<close>

fun started ::
  "(jsstring list \<Rightarrow> jsstring) \<Rightarrow> cwdResult \<Rightarrow> real \<Rightarrow> 'h FluentCommand \<Rightarrow> 'h FluentCommand"
where
  "started resolvePath (CwdReturns dir) t0 s =
     s\<lparr>p_startTime := t0,
       p_resolvedCwd := resolvePath (resolvePath [dir] # p_cwdPath s # p_extraCwdPathPieces s)\<rparr>"
| "started resolvePath (CwdThrows err now) t0 s = s\<lparr>p_startTime := t0\<rparr>"

fun spawnCall ::
  "(jsstring list \<Rightarrow> jsstring) \<Rightarrow> cwdResult \<Rightarrow> 'h FluentCommand \<Rightarrow> 'h effect list"
where
  "spawnCall resolvePath (CwdReturns dir) s =
     [SpawnProcess (p_executable s) (p_commandArgs s)
        (resolvePath (resolvePath [dir] # p_cwdPath s # p_extraCwdPathPieces s))]"
| "spawnCall resolvePath (CwdThrows err now) s = []"

text \<open>A sequence of chunk arrivals, each handled by \<open>#onChunk\<close>.\<close>

definition feed :: "(source \<times> jsstring) list \<Rightarrow> 'h world \<Rightarrow> 'h world" where
  "feed chunks w = foldl (\<lambda>w' (src, chunk). onChunk src chunk w') w chunks"

text \<open>
  The four observer channels, the slot of each, and the registrations a chain of
  builder calls makes on a channel, in call order.
\<close>

datatype channel = SpawnChannel | StdoutChannel | StderrChannel | OutputChannel

fun slot :: "channel \<Rightarrow> 'h FluentCommand \<Rightarrow> 'h option" where
  "slot SpawnChannel s = p_spawnHandler s"
| "slot StdoutChannel s = p_stdoutHandler s"
| "slot StderrChannel s = p_stderrHandler s"
| "slot OutputChannel s = p_outputHandler s"

fun channelOf :: "source \<Rightarrow> channel" where
  "channelOf Stdout = StdoutChannel"
| "channelOf Stderr = StderrChannel"

fun registers :: "channel \<Rightarrow> ('h, 'n) builderCall \<Rightarrow> 'h option" where
  "registers ch (OnSpawn h) = (if ch = SpawnChannel then Some h else None)"
| "registers ch (OnStdout h) = (if ch = StdoutChannel then Some h else None)"
| "registers ch (OnStderr h) = (if ch = StderrChannel then Some h else None)"
| "registers ch (OnOutput h) = (if ch = OutputChannel then Some h else None)"
| "registers ch (Args a rest) = None"
| "registers ch (Cwd b extras) = None"
| "registers ch (Opt k v) = None"
| "registers ch (Option k v) = None"

definition spec_registrations :: "channel \<Rightarrow> ('h, 'n) builderCall list \<Rightarrow> 'h list" where
  "spec_registrations ch calls = List.map_filter (registers ch) calls"

text \<open>The three text fields of an outcome: stdout, stderr, combined output.\<close>

fun outcomeText :: "outcome \<Rightarrow> jsstring \<times> jsstring \<times> jsstring" where
  "outcomeText (Ok v) = (stdout v, stderr v, output v)"
| "outcomeText (Err e) = (stdout e, stderr e, output e)"

text \<open>The part of the object that an execution never writes after its start.\<close>

definition config ::
  "'h FluentCommand \<Rightarrow>
     jsstring \<times> jsstring list \<times> real \<times> jsstring \<times> jsstring list \<times> jsstring \<times>
     'h option \<times> 'h option \<times> 'h option \<times> 'h option \<times> bool"
where
  "config s =
     (p_executable s, p_commandArgs s, p_startTime s, p_cwdPath s, p_extraCwdPathPieces s,
      p_resolvedCwd s, p_spawnHandler s, p_stdoutHandler s, p_stderrHandler s,
      p_outputHandler s, p_shouldBeSilent s)"

section \<open>An instance of the collaborators\<close>

text \<open>
  The path utility and \<open>Number.prototype.toString\<close> are parameters of the model. For
  concrete executions, a resolver of POSIX paths: a fragment that starts with a slash
  restarts from the root, the segments \<open>.\<close> and the empty one are dropped, \<open>..\<close>
  removes the last segment, and without an absolute fragment the process's current
  directory is the start. \<open>decimalDigits\<close> writes a natural number in base ten.
\<close>

definition slash :: jschar where
  "slash = 0x2F"

definition isAbsolute :: "jsstring \<Rightarrow> bool" where
  "isAbsolute p = (case p of [] \<Rightarrow> False | c # cs \<Rightarrow> c = slash)"

fun splitSlash :: "jsstring \<Rightarrow> jsstring list" where
  "splitSlash [] = [[]]"
| "splitSlash (c # cs) =
     (if c = slash then [] # splitSlash cs
      else (case splitSlash cs of x # xs \<Rightarrow> (c # x) # xs | [] \<Rightarrow> [[c]]))"

definition push :: "jsstring list \<Rightarrow> jsstring \<Rightarrow> jsstring list" where
  "push st seg =
     (if seg = [] \<or> seg = str ''.'' then st
      else if seg = str ''..'' then butlast st
      else st @ [seg])"

definition applyFragment :: "jsstring list \<Rightarrow> jsstring \<Rightarrow> jsstring list" where
  "applyFragment st f = foldl push (if isAbsolute f then [] else st) (splitSlash f)"

definition render :: "jsstring list \<Rightarrow> jsstring" where
  "render st = (if st = [] then [slash] else concat (map (\<lambda>seg. slash # seg) st))"

definition posixResolve :: "jsstring \<Rightarrow> jsstring list \<Rightarrow> jsstring" where
  "posixResolve processCwd fs = render (foldl applyFragment (applyFragment [] processCwd) fs)"

definition clean :: "jsstring list \<Rightarrow> bool" where
  "clean st = list_all (\<lambda>seg. seg \<noteq> [] \<and> seg \<noteq> str ''.'' \<and> seg \<noteq> str ''..'' \<and> slash \<notin> set seg) st"

fun decimalDigits :: "nat \<Rightarrow> jsstring" where
  "decimalDigits n =
     (if n < 10 then [of_nat (48 + n)]
      else decimalDigits (n div 10) @ [of_nat (48 + n mod 10)])"

text \<open>
  A command built by a chain of calls, with handlers \<open>1\<close> to \<open>4\<close>, used in the
  concrete executions below.
\<close>

definition demo_command :: "nat FluentCommand" where
  "demo_command =
     chain decimalDigits
       [Opt (str ''n'') (NumberValue 3), OnStdout 1, OnStderr 2, OnOutput 3, OnSpawn 4,
        Cwd (str ''/tmp'') [str ''work'']]
       (fcmd (str ''tool'') [str ''go''])"

definition demo_resolve :: "jsstring list \<Rightarrow> jsstring" where
  "demo_resolve = posixResolve (str ''/srv'')"

lemmas demo_defs =
  demo_command_def demo_resolve_def chain_def fcmd_def new_FluentCommand_def args_def
  cwd_method_def opt_def option_def addOptionPair_def addArgs_def onSpawn_def onStdout_def
  onStderr_def onOutput_def str_def posixResolve_def applyFragment_def push_def render_def
  isAbsolute_def slash_def

lemmas exec_defs =
  runOrRead_def run_def read_def onChunk_def p_onSpawn_def onClose_def resolve_def reject_def
  errorMapper_def commandSuccess_def commandError_def Let_def trimEnd_def isWhiteSpace_def
  whiteSpaceUnits_def SPAWN_MISSING_EXE_CODE_def invocation_def mirrored_def
  FluentCommandSuccess.defs FluentCommandError.defs

section \<open>The argument vector\<close>

lemma commandArgs_addArgs: "p_commandArgs (addArgs xs s) = p_commandArgs s @ xs"
  by (simp add: addArgs_def)

lemma commandArgs_opt:
  "p_commandArgs (opt toString k v s) =
     p_commandArgs s @ spec_keyToken ''-'' k @ spec_valueToken toString v"
  by (cases v) (simp_all add: opt_def addOptionPair_def Let_def commandArgs_addArgs
      spec_keyToken_def str_def)

lemma commandArgs_option:
  "p_commandArgs (option toString k v s) =
     p_commandArgs s @ spec_keyToken ''--'' k @ spec_valueToken toString v"
  by (cases v) (simp_all add: option_def addOptionPair_def Let_def commandArgs_addArgs
      spec_keyToken_def str_def numeral_2_eq_2)

lemma commandArgs_invoke:
  "p_commandArgs (invoke toString c s) = p_commandArgs s @ spec_tokens toString c"
  by (cases c)
    (simp_all add: args_def cwd_method_def onSpawn_def onStdout_def
      onStderr_def onOutput_def commandArgs_addArgs commandArgs_opt commandArgs_option)

lemma commandArgs_chain:
  "p_commandArgs (chain toString calls s) =
     p_commandArgs s @ concat (map (spec_tokens toString) calls)"
  unfolding chain_def
  by (induction calls arbitrary: s) (simp_all add: commandArgs_invoke)

text \<open>
  C3. After the constructor and any sequence of builder calls, the argument vector is
  the constructor's initial arguments followed by the tokens of each call, in call
  order: \<open>args\<close> contributes its tokens verbatim, \<open>opt\<close> the token \<open>-key\<close> for a
  non-empty key and then the value when it is a non-empty string or a number (through
  \<open>toString\<close>), \<open>option\<close> the same with \<open>--\<close>; \<open>cwd\<close> and the observer registrations
  contribute nothing.
\<close>

theorem C3_argument_vector:
  "p_commandArgs (chain toString calls (new_FluentCommand exe initialArgs)) =
     initialArgs @ concat (map (spec_tokens toString) calls)"
  by (simp add: commandArgs_chain new_FluentCommand_def)

theorem C3_argument_vector_witness:
  "p_commandArgs
     (chain decimalDigits
        [Opt (str ''x'') Undefined, Option (str ''x'') (StringValue (str ''y'')),
         Opt (str ''n'') (NumberValue 42), Option (str ''e'') (StringValue []),
         OnStdout (1::nat), Args (str ''a'') [str ''b'']]
        (new_FluentCommand (str ''ls'') [str ''-l''])) =
   [str ''-l'', str ''-x'', str ''--x'', str ''y'', str ''-n'', str ''42'', str ''--e'',
    str ''a'', str ''b'']"
  using C3_argument_vector [of decimalDigits
      "[Opt (str ''x'') Undefined, Option (str ''x'') (StringValue (str ''y'')),
        Opt (str ''n'') (NumberValue 42), Option (str ''e'') (StringValue []),
        OnStdout (1::nat), Args (str ''a'') [str ''b'']]" "str ''ls''" "[str ''-l'']"]
  by (simp add: spec_keyToken_def str_def)

section \<open>Chunks and the three accumulators\<close>

lemma onChunk_Stdout:
  "onChunk Stdout c w =
     w\<lparr>obj := (obj w)\<lparr>p_stdoutContents := p_stdoutContents (obj w) @ c,
                        p_outputContents := p_outputContents (obj w) @ c\<rparr>,
       trace := trace w @ invocation (p_stdoutHandler (obj w)) c @
                invocation (p_outputHandler (obj w)) c @
                mirrored (p_shouldBeSilent (obj w)) Stdout c\<rparr>"
  by (simp add: onChunk_def Let_def invocation_def mirrored_def)

lemma onChunk_Stderr:
  "onChunk Stderr c w =
     w\<lparr>obj := (obj w)\<lparr>p_stderrContents := p_stderrContents (obj w) @ c,
                        p_outputContents := p_outputContents (obj w) @ c\<rparr>,
       trace := trace w @ invocation (p_stderrHandler (obj w)) c @
                invocation (p_outputHandler (obj w)) c @
                mirrored (p_shouldBeSilent (obj w)) Stderr c\<rparr>"
  by (simp add: onChunk_def Let_def invocation_def mirrored_def)

lemma promise_onChunk: "promise (onChunk src c w) = promise w"
  by (cases src) (simp_all add: onChunk_Stdout onChunk_Stderr)

lemma contents_onChunk:
  "p_outputContents (obj (onChunk src c w)) = p_outputContents (obj w) @ c"
  "p_stdoutContents (obj (onChunk src c w)) =
     p_stdoutContents (obj w) @ (if src = Stdout then c else [])"
  "p_stderrContents (obj (onChunk src c w)) =
     p_stderrContents (obj w) @ (if src = Stderr then c else [])"
  by (cases src; simp add: onChunk_Stdout onChunk_Stderr)+

lemma contents_feed:
  "p_outputContents (obj (feed chunks w)) = p_outputContents (obj w) @ concat (map snd chunks) \<and>
   p_stdoutContents (obj (feed chunks w)) =
     p_stdoutContents (obj w) @ concat (map snd (filter (\<lambda>p. fst p = Stdout) chunks)) \<and>
   p_stderrContents (obj (feed chunks w)) =
     p_stderrContents (obj w) @ concat (map snd (filter (\<lambda>p. fst p = Stderr) chunks))"
  unfolding feed_def
  by (induction chunks arbitrary: w) (auto simp: contents_onChunk)

section \<open>Settlement\<close>

lemma commandError_eq:
  "commandError now s =
     FluentCommandSuccess.extend (commandSuccess now s)
       (FluentCommandError.fields (p_code s) (p_signal s))"
  by (simp add: commandError_def Let_def FluentCommandSuccess.defs FluentCommandError.defs
      split: option.splits)

lemma code_commandError: "code (commandError now s) = p_code s"
  by (simp add: commandError_eq FluentCommandSuccess.defs FluentCommandError.defs)

lemma signal_commandError: "signal (commandError now s) = p_signal s"
  by (simp add: commandError_eq FluentCommandSuccess.defs FluentCommandError.defs)

lemma text_commandSuccess:
  "stdout (commandSuccess now s) = trimEnd (p_stdoutContents s)"
  "stderr (commandSuccess now s) = trimEnd (p_stderrContents s)"
  "output (commandSuccess now s) = trimEnd (p_outputContents s)"
  by (simp_all add: commandSuccess_def)

lemma text_commandError:
  "stdout (commandError now s) = trimEnd (p_stdoutContents s)"
  "stderr (commandError now s) = trimEnd (p_stderrContents s)"
  "output (commandError now s) = trimEnd (p_outputContents s)"
  by (simp_all add: commandError_eq commandSuccess_def FluentCommandSuccess.defs
      FluentCommandError.defs)

lemma promise_p_onSpawn: "promise (p_onSpawn w) = promise w"
  by (simp add: p_onSpawn_def split: option.splits)

lemma reject_settled: "promise w = Some v \<Longrightarrow> reject err now w = w"
  by (simp add: reject_def)

lemma resolve_settled: "promise w = Some v \<Longrightarrow> resolve r w = w"
  by (simp add: resolve_def)

lemma promise_errorMapper: "promise (fst (errorMapper err now w)) = promise w"
  by (simp add: errorMapper_def Let_def promise_onChunk
      split: rejection.splits codeProperty.splits)

lemma reject_pending:
  "promise w = None \<Longrightarrow>
     reject err now w =
       (fst (errorMapper err now w))\<lparr>promise := Some (Err (snd (errorMapper err now w)))\<rparr>"
  by (simp add: reject_def split_beta)

lemma resolve_pending: "promise w = None \<Longrightarrow> resolve r w = w\<lparr>promise := Some (Ok r)\<rparr>"
  by (simp add: resolve_def)

lemma deliver_settled: "promise w = Some v \<Longrightarrow> promise (deliver e w) = Some v"
proof (cases e)
  case (Pair now ev)
  assume "promise w = Some v"
  then show ?thesis unfolding Pair
    by (cases ev)
      (simp_all add: promise_onChunk promise_p_onSpawn reject_settled resolve_settled
        onClose_def Let_def)
qed

lemma deliver_not_settling:
  "\<not> settles (snd e) \<Longrightarrow> promise (deliver e w) = promise w"
proof (cases e)
  case (Pair now ev)
  assume "\<not> settles (snd e)"
  then show ?thesis unfolding Pair
    by (cases ev) (simp_all add: promise_onChunk promise_p_onSpawn)
qed

lemma deliver_settling: "settles (snd e) \<Longrightarrow> promise (deliver e w) \<noteq> None"
proof (cases e)
  case (Pair now ev)
  assume "settles (snd e)"
  then show ?thesis unfolding Pair
    by (cases ev; cases "promise w")
      (simp_all add: onClose_def Let_def reject_pending reject_settled resolve_pending
        resolve_settled)
qed

lemma pending_deliver:
  "(promise (deliver e w) = None) = (promise w = None \<and> \<not> settles (snd e))"
  using deliver_settling [of e w] deliver_not_settling [of e w] deliver_settled [of w _ e]
  by (cases "promise w") auto

lemma events_settled:
  "promise w = Some v \<Longrightarrow> promise (foldl (\<lambda>w' e. deliver e w') w evs) = Some v"
  by (induction evs arbitrary: w) (simp_all add: deliver_settled)

lemma events_not_settling:
  "list_all (\<lambda>e. \<not> settles (snd e)) evs \<Longrightarrow>
     promise (foldl (\<lambda>w' e. deliver e w') w evs) = promise w"
  by (induction evs arbitrary: w) (simp_all add: deliver_not_settling)

lemma runOrRead_throws:
  "runOrRead rp (CwdThrows err now) t0 evs s =
     deliver (now, ErrorEvent err) \<lparr> obj = s\<lparr>p_startTime := t0\<rparr>, trace = [], promise = None \<rparr>"
  by (simp add: runOrRead_def Let_def)

lemma runOrRead_append:
  "runOrRead rp (CwdReturns pc) t0 (pre @ post) s =
     foldl (\<lambda>w' e. deliver e w') (runOrRead rp (CwdReturns pc) t0 pre s) post"
  by (simp add: runOrRead_def Let_def)

lemma runOrRead_pending:
  "list_all (\<lambda>e. \<not> settles (snd e)) pre \<Longrightarrow>
     promise (runOrRead rp (CwdReturns pc) t0 pre s) = None"
  by (simp add: runOrRead_def Let_def events_not_settling)

lemma close_pending:
  "promise w = None \<Longrightarrow>
     promise (deliver (t, CloseEvent c sg) w) =
       Some (if c = Some 0
             then Ok (commandSuccess t ((obj w)\<lparr>p_code := c, p_signal := sg\<rparr>))
             else Err (commandError t ((obj w)\<lparr>p_code := c, p_signal := sg\<rparr>)))"
  by (simp add: onClose_def Let_def resolve_pending reject_pending errorMapper_def)

lemma error_pending:
  "promise w = None \<Longrightarrow>
     deliver (t, ErrorEvent (Object (CodeString ec) msg)) w =
       (let w2 = onChunk Stderr (ec @ str '': '' @ msg)
                   (w\<lparr>obj := (obj w)\<lparr>p_code := Some SPAWN_MISSING_EXE_CODE\<rparr>\<rparr>)
        in w2\<lparr>promise := Some (Err (commandError t (obj w2)))\<rparr>)"
  by (simp add: reject_pending errorMapper_def Let_def)

lemma settle_outcome:
  assumes "promise w = None" and "settles ev"
  shows "promise (deliver (t, ev) w) = Some (Ok (commandSuccess t (obj (deliver (t, ev) w)))) \<or>
         promise (deliver (t, ev) w) = Some (Err (commandError t (obj (deliver (t, ev) w))))"
proof (cases ev)
  case SpawnEvent
  then show ?thesis using assms by simp
next
  case (DataEvent src c)
  then show ?thesis using assms by simp
next
  case (ErrorEvent err)
  then show ?thesis using assms
    by (simp add: reject_pending errorMapper_def Let_def)
next
  case (CloseEvent c sg)
  then show ?thesis using assms
    by (simp add: onClose_def Let_def reject_pending resolve_pending errorMapper_def)
qed

lemma outcomeText_settled:
  assumes "promise w = None" and "settles ev"
  shows "map_option outcomeText (promise (deliver (t, ev) w)) =
           Some (trimEnd (p_stdoutContents (obj (deliver (t, ev) w))),
                 trimEnd (p_stderrContents (obj (deliver (t, ev) w))),
                 trimEnd (p_outputContents (obj (deliver (t, ev) w))))"
  using settle_outcome [OF assms, of t]
  by (auto simp: text_commandSuccess text_commandError)

section \<open>What an execution leaves unchanged\<close>

lemma config_onChunk: "config (obj (onChunk src c w)) = config (obj w)"
  by (cases src) (simp_all add: onChunk_Stdout onChunk_Stderr config_def)

lemma config_errorMapper: "config (obj (fst (errorMapper err now w))) = config (obj w)"
proof -
  have "config (obj (w\<lparr>obj := (obj w)\<lparr>p_code := x\<rparr>\<rparr>)) = config (obj w)" for x
    by (simp add: config_def)
  then show ?thesis
    by (simp add: errorMapper_def Let_def config_onChunk
        split: rejection.splits codeProperty.splits)
qed

lemma config_reject: "config (obj (reject err now w)) = config (obj w)"
  by (cases "promise w") (simp_all add: reject_pending reject_settled config_errorMapper)

lemma config_resolve: "config (obj (resolve r w)) = config (obj w)"
  by (cases "promise w") (simp_all add: resolve_pending resolve_settled)

lemma config_onClose: "config (obj (onClose now c sg w)) = config (obj w)"
proof -
  have "config (obj (w\<lparr>obj := (obj w)\<lparr>p_code := c', p_signal := sg\<rparr>\<rparr>)) = config (obj w)" for c'
    by (simp add: config_def)
  then show ?thesis
    by (simp add: onClose_def Let_def config_reject config_resolve)
qed

lemma config_p_onSpawn: "config (obj (p_onSpawn w)) = config (obj w)"
  by (simp add: p_onSpawn_def split: option.splits)

lemma config_deliver: "config (obj (deliver e w)) = config (obj w)"
proof (cases e)
  case (Pair now ev)
  show ?thesis unfolding Pair
    by (cases ev) (simp_all add: config_onChunk config_p_onSpawn config_reject config_onClose)
qed

lemma config_events: "config (obj (foldl (\<lambda>w' e. deliver e w') w evs)) = config (obj w)"
  by (induction evs arbitrary: w) (simp_all add: config_deliver)

lemma config_runOrRead: "config (obj (runOrRead rp pc t0 evs s)) = config (started rp pc t0 s)"
proof (cases pc)
  case (CwdReturns dir)
  then show ?thesis by (simp add: runOrRead_def Let_def config_events)
next
  case (CwdThrows err now)
  then show ?thesis by (simp only: runOrRead_throws config_deliver) simp
qed

lemma handlers_runOrRead:
  "p_stdoutHandler (obj (runOrRead rp pc t0 evs s)) = p_stdoutHandler s"
  "p_stderrHandler (obj (runOrRead rp pc t0 evs s)) = p_stderrHandler s"
  "p_outputHandler (obj (runOrRead rp pc t0 evs s)) = p_outputHandler s"
  "p_spawnHandler (obj (runOrRead rp pc t0 evs s)) = p_spawnHandler s"
  "p_shouldBeSilent (obj (runOrRead rp pc t0 evs s)) = p_shouldBeSilent s"
  using config_runOrRead [of rp pc t0 evs s] by (cases pc; simp add: config_def)+

lemma resolvedCwd_runOrRead:
  "p_resolvedCwd (obj (runOrRead rp (CwdReturns pc) t0 evs s)) =
     rp (rp [pc] # p_cwdPath s # p_extraCwdPathPieces s)"
  using config_runOrRead [of rp "CwdReturns pc" t0 evs s] by (simp add: config_def)

lemma resolvedCwd_throws:
  "p_resolvedCwd (obj (runOrRead rp (CwdThrows err now) t0 evs s)) = p_resolvedCwd s"
  using config_runOrRead [of rp "CwdThrows err now" t0 evs s] by (simp add: config_def)

section \<open>The effects and the accumulators of a whole execution\<close>

lemma spec_effects_config: "config s = config s' \<Longrightarrow> spec_effects s a = spec_effects s' a"
  by (cases a) (auto simp: config_def split: option.splits source.splits)

lemma trace_onChunk:
  "trace (onChunk src c w) = trace w @ spec_effects (obj w) (Chunk src c)"
  by (cases src) (simp_all add: onChunk_Stdout onChunk_Stderr)

lemma trace_p_onSpawn: "trace (p_onSpawn w) = trace w @ spec_effects (obj w) Spawned"
  by (simp add: p_onSpawn_def split: option.splits)

lemma trace_deliver:
  "trace (deliver e w) = trace w @ concat (map (spec_effects (obj w)) (spec_arrivals (promise w = None) [e]))"
proof (cases e)
  case (Pair now ev)
  have upd: "spec_effects ((obj w)\<lparr>p_code := x\<rparr>) a = spec_effects (obj w) a" for x a
    by (rule spec_effects_config) (simp add: config_def)
  have upd2: "trace (w\<lparr>obj := y\<rparr>) = trace w" for y
    by simp
  show ?thesis
  proof (cases ev)
    case SpawnEvent
    then show ?thesis using Pair by (simp add: trace_p_onSpawn)
  next
    case (DataEvent src c)
    then show ?thesis using Pair by (simp add: trace_onChunk)
  next
    case (ErrorEvent err)
    then show ?thesis using Pair
      by (cases "promise w")
        (simp_all add: reject_pending reject_settled errorMapper_def Let_def trace_onChunk upd
          split: rejection.splits codeProperty.splits)
  next
    case (CloseEvent c sg)
    then show ?thesis using Pair
      by (cases "promise w")
        (simp_all add: onClose_def Let_def reject_pending reject_settled resolve_pending
          resolve_settled errorMapper_def)
  qed
qed

lemma spec_arrivals_Cons:
  "spec_arrivals p (e # evs) = spec_arrivals p [e] @ spec_arrivals (p \<and> \<not> settles (snd e)) evs"
proof (cases e)
  case (Pair now ev)
  show ?thesis unfolding Pair by (cases ev) simp_all
qed

lemma trace_events:
  "trace (foldl (\<lambda>w' e. deliver e w') w evs) =
     trace w @ concat (map (spec_effects (obj w)) (spec_arrivals (promise w = None) evs))"
proof (induction evs arbitrary: w)
  case Nil
  show ?case by simp
next
  case (Cons e evs)
  let ?w1 = "deliver e w"
  let ?now = "concat (map (spec_effects (obj w)) (spec_arrivals (promise w = None) [e]))"
  let ?later = "concat (map (spec_effects (obj w))
                  (spec_arrivals (promise w = None \<and> \<not> settles (snd e)) evs))"
  have eff: "spec_effects (obj ?w1) = spec_effects (obj w)"
    by (rule ext, rule spec_effects_config, rule config_deliver)
  have "trace (foldl (\<lambda>w' e. deliver e w') w (e # evs)) =
          trace ?w1 @ concat (map (spec_effects (obj ?w1)) (spec_arrivals (promise ?w1 = None) evs))"
    using Cons.IH [of ?w1] by simp
  also have "\<dots> = (trace w @ ?now) @ ?later"
    by (simp only: eff pending_deliver trace_deliver)
  also have "\<dots> = trace w @ concat (map (spec_effects (obj w))
                        (spec_arrivals (promise w = None) [e] @
                         spec_arrivals (promise w = None \<and> \<not> settles (snd e)) evs))"
    by simp
  also have "spec_arrivals (promise w = None) [e] @
               spec_arrivals (promise w = None \<and> \<not> settles (snd e)) evs =
             spec_arrivals (promise w = None) (e # evs)"
    by (rule spec_arrivals_Cons [symmetric])
  finally show ?case .
qed

lemma trace_runOrRead:
  "trace (runOrRead rp (CwdReturns pc) t0 evs s) =
     (let s1 = s\<lparr>p_startTime := t0,
                  p_resolvedCwd := rp (rp [pc] # p_cwdPath s # p_extraCwdPathPieces s)\<rparr>
      in SpawnProcess (p_executable s) (p_commandArgs s) (p_resolvedCwd s1) #
         concat (map (spec_effects s1) (spec_arrivals True evs)))"
  by (simp add: runOrRead_def Let_def trace_events)

lemma trace_execution:
  "trace (runOrRead rp pc t0 evs s) =
     spawnCall rp pc s @ concat (map (spec_effects (started rp pc t0 s)) (spec_execution pc evs))"
proof (cases pc)
  case (CwdReturns dir)
  then show ?thesis by (simp add: trace_runOrRead Let_def)
next
  case (CwdThrows err now)
  let ?w = "\<lparr> obj = s\<lparr>p_startTime := t0\<rparr>, trace = [], promise = None \<rparr> :: 'a world"
  have "trace (deliver (now, ErrorEvent err) ?w) =
          trace ?w @ concat (map (spec_effects (obj ?w))
                       (spec_arrivals (promise ?w = None) [(now, ErrorEvent err)]))"
    by (rule trace_deliver)
  then show ?thesis
    using CwdThrows by (simp only: runOrRead_throws) simp
qed

lemma chunksOf_append: "chunksOf src (xs @ ys) = chunksOf src xs @ chunksOf src ys"
  by (induction src xs rule: chunksOf.induct) simp_all

lemma allChunks_append: "allChunks (xs @ ys) = allChunks xs @ allChunks ys"
  by (induction xs rule: allChunks.induct) simp_all

lemma contents_deliver:
  "p_outputContents (obj (deliver e w)) =
     p_outputContents (obj w) @ concat (allChunks (spec_arrivals (promise w = None) [e])) \<and>
   p_stdoutContents (obj (deliver e w)) =
     p_stdoutContents (obj w) @ concat (chunksOf Stdout (spec_arrivals (promise w = None) [e])) \<and>
   p_stderrContents (obj (deliver e w)) =
     p_stderrContents (obj w) @ concat (chunksOf Stderr (spec_arrivals (promise w = None) [e]))"
proof (cases e)
  case (Pair now ev)
  show ?thesis
  proof (cases ev)
    case SpawnEvent
    then show ?thesis using Pair by (simp add: p_onSpawn_def split: option.splits)
  next
    case (DataEvent src c)
    then show ?thesis using Pair by (simp add: contents_onChunk)
  next
    case (ErrorEvent err)
    then show ?thesis using Pair
      by (cases "promise w")
        (simp_all add: reject_pending reject_settled errorMapper_def Let_def onChunk_Stderr
          split: rejection.splits codeProperty.splits)
  next
    case (CloseEvent c sg)
    then show ?thesis using Pair
      by (cases "promise w")
        (simp_all add: onClose_def Let_def reject_pending reject_settled resolve_pending
          resolve_settled errorMapper_def)
  qed
qed

lemma contents_events:
  "p_outputContents (obj (foldl (\<lambda>w' e. deliver e w') w evs)) =
     p_outputContents (obj w) @ concat (allChunks (spec_arrivals (promise w = None) evs)) \<and>
   p_stdoutContents (obj (foldl (\<lambda>w' e. deliver e w') w evs)) =
     p_stdoutContents (obj w) @ concat (chunksOf Stdout (spec_arrivals (promise w = None) evs)) \<and>
   p_stderrContents (obj (foldl (\<lambda>w' e. deliver e w') w evs)) =
     p_stderrContents (obj w) @ concat (chunksOf Stderr (spec_arrivals (promise w = None) evs))"
proof (induction evs arbitrary: w)
  case Nil
  show ?case by simp
next
  case (Cons e evs)
  have split: "spec_arrivals (promise w = None) (e # evs) =
      spec_arrivals (promise w = None) [e] @ spec_arrivals (promise (deliver e w) = None) evs"
    by (simp only: pending_deliver spec_arrivals_Cons [of _ e evs])
  show ?case
    using Cons.IH [of "deliver e w"] contents_deliver [of e w]
    by (simp only: foldl_Cons split allChunks_append chunksOf_append concat_append append_assoc)
qed

lemma contents_execution:
  "p_outputContents (obj (runOrRead rp pc t0 evs s)) =
     p_outputContents s @ concat (allChunks (spec_execution pc evs)) \<and>
   p_stdoutContents (obj (runOrRead rp pc t0 evs s)) =
     p_stdoutContents s @ concat (chunksOf Stdout (spec_execution pc evs)) \<and>
   p_stderrContents (obj (runOrRead rp pc t0 evs s)) =
     p_stderrContents s @ concat (chunksOf Stderr (spec_execution pc evs))"
proof (cases pc)
  case (CwdReturns dir)
  then show ?thesis by (simp add: runOrRead_def Let_def contents_events)
next
  case (CwdThrows err now)
  let ?w = "\<lparr> obj = s\<lparr>p_startTime := t0\<rparr>, trace = [], promise = None \<rparr> :: 'a world"
  show ?thesis
    using contents_deliver [of "(now, ErrorEvent err)" ?w] CwdThrows
    by (simp only: runOrRead_throws) simp
qed


section \<open>Noisy and silent executions\<close>

lemma commandSuccess_silent:
  "commandSuccess t (s\<lparr>p_shouldBeSilent := b\<rparr>) = commandSuccess t s"
  by (simp add: commandSuccess_def)

lemma commandError_silent:
  "commandError t (s\<lparr>p_shouldBeSilent := b\<rparr>) = commandError t s"
  by (simp add: commandError_eq commandSuccess_silent)

lemma sim_onChunk:
  "obj w = (obj w')\<lparr>p_shouldBeSilent := b\<rparr> \<Longrightarrow>
     obj (onChunk src c w) = (obj (onChunk src c w'))\<lparr>p_shouldBeSilent := b\<rparr>"
  by (cases src) (simp_all add: onChunk_Stdout onChunk_Stderr)

lemma sim_reject:
  assumes "obj w = (obj w')\<lparr>p_shouldBeSilent := b\<rparr>" and "promise w = promise w'"
  shows "obj (reject err now w) = (obj (reject err now w'))\<lparr>p_shouldBeSilent := b\<rparr> \<and>
         promise (reject err now w) = promise (reject err now w')"
proof (cases "promise w'")
  case (Some v)
  then show ?thesis using assms by (simp add: reject_settled)
next
  case None
  have code: "obj (w\<lparr>obj := (obj w)\<lparr>p_code := x\<rparr>\<rparr>) =
                (obj (w'\<lparr>obj := (obj w')\<lparr>p_code := x\<rparr>\<rparr>))\<lparr>p_shouldBeSilent := b\<rparr>" for x
    using assms(1) by simp
  have "obj (fst (errorMapper err now w)) =
          (obj (fst (errorMapper err now w')))\<lparr>p_shouldBeSilent := b\<rparr>"
    using assms(1) sim_onChunk [OF code]
    by (simp add: errorMapper_def Let_def split: rejection.splits codeProperty.splits)
  then show ?thesis
    using None assms(2)
    by (simp add: reject_pending errorMapper_def Let_def commandError_silent)
qed

lemma sim_deliver:
  assumes "obj w = (obj w')\<lparr>p_shouldBeSilent := b\<rparr>" and "promise w = promise w'"
  shows "obj (deliver e w) = (obj (deliver e w'))\<lparr>p_shouldBeSilent := b\<rparr> \<and>
         promise (deliver e w) = promise (deliver e w')"
proof (cases e)
  case (Pair now ev)
  show ?thesis
  proof (cases ev)
    case SpawnEvent
    then show ?thesis using Pair assms
      by (simp add: p_onSpawn_def split: option.splits)
  next
    case (DataEvent src c)
    then show ?thesis using Pair assms sim_onChunk [OF assms(1)]
      by (simp add: promise_onChunk)
  next
    case (ErrorEvent err)
    then show ?thesis using Pair sim_reject [OF assms] by simp
  next
    case (CloseEvent c sg)
    let ?v = "w\<lparr>obj := (obj w)\<lparr>p_code := c, p_signal := sg\<rparr>\<rparr>"
    let ?v' = "w'\<lparr>obj := (obj w')\<lparr>p_code := c, p_signal := sg\<rparr>\<rparr>"
    have o: "obj ?v = (obj ?v')\<lparr>p_shouldBeSilent := b\<rparr>" and p: "promise ?v = promise ?v'"
      using assms by simp_all
    have "commandSuccess now (obj ?v) = commandSuccess now (obj ?v')"
      by (simp only: o commandSuccess_silent)
    moreover have "obj (resolve r ?v) = (obj (resolve r ?v'))\<lparr>p_shouldBeSilent := b\<rparr> \<and>
          promise (resolve r ?v) = promise (resolve r ?v')" for r
      using o p by (cases "promise w'") (simp_all add: resolve_def)
    ultimately show ?thesis
      using Pair CloseEvent sim_reject [OF o p, of Nullish now]
      by (cases "c = Some 0") (simp_all add: onClose_def Let_def)
  qed
qed

lemma sim_events:
  "obj w = (obj w')\<lparr>p_shouldBeSilent := b\<rparr> \<Longrightarrow> promise w = promise w' \<Longrightarrow>
     obj (foldl (\<lambda>w' e. deliver e w') w evs) =
       (obj (foldl (\<lambda>w' e. deliver e w') w' evs))\<lparr>p_shouldBeSilent := b\<rparr> \<and>
     promise (foldl (\<lambda>w' e. deliver e w') w evs) = promise (foldl (\<lambda>w' e. deliver e w') w' evs)"
proof (induction evs arbitrary: w w')
  case Nil
  then show ?case by simp
next
  case (Cons e evs)
  from sim_deliver [OF Cons.prems, of e]
  show ?case using Cons.IH [of "deliver e w" "deliver e w'"] by simp
qed

lemma filter_spec_effects_calls:
  "filter (\<lambda>e. \<not> isProcessWrite e) (spec_effects s a) = spec_effects (s\<lparr>p_shouldBeSilent := True\<rparr>) a"
  by (cases a) (auto simp: invocation_def mirrored_def split: option.splits source.splits)

lemma filter_spec_effects_writes:
  "filter isProcessWrite (spec_effects s a) = (if p_shouldBeSilent s then [] else writesOf [a])"
  by (cases a) (auto simp: invocation_def mirrored_def split: option.splits source.splits)

lemma writesOf_append: "writesOf (xs @ ys) = writesOf xs @ writesOf ys"
  by (induction xs rule: writesOf.induct) simp_all

lemma concat_writesOf: "concat (map (\<lambda>a. writesOf [a]) as) = writesOf as"
  by (induction as rule: writesOf.induct) simp_all

section \<open>Trimming\<close>

lemma trimEnd_decompose: "trimEnd acc @ rev (takeWhile isWhiteSpace (rev acc)) = acc"
proof -
  have "rev (takeWhile isWhiteSpace (rev acc) @ dropWhile isWhiteSpace (rev acc)) = acc"
    by simp
  then show ?thesis
    by (simp only: rev_append trimEnd_def)
qed

lemma trimEnd_prefix: "take (length (trimEnd acc)) acc = trimEnd acc"
proof -
  have "take (length (trimEnd acc)) (trimEnd acc @ rev (takeWhile isWhiteSpace (rev acc))) =
          trimEnd acc"
    by simp
  then show ?thesis
    by (simp only: trimEnd_decompose)
qed

lemma trimEnd_suffix: "list_all isWhiteSpace (drop (length (trimEnd acc)) acc)"
proof -
  have "drop (length (trimEnd acc)) (trimEnd acc @ rev (takeWhile isWhiteSpace (rev acc))) =
          rev (takeWhile isWhiteSpace (rev acc))"
    by simp
  then have "drop (length (trimEnd acc)) acc = rev (takeWhile isWhiteSpace (rev acc))"
    by (simp only: trimEnd_decompose)
  moreover have "list_all isWhiteSpace (rev (takeWhile isWhiteSpace (rev acc)))"
    by (simp add: list_all_iff) (meson set_takeWhileD)
  ultimately show ?thesis
    by simp
qed

lemma trimEnd_last: "trimEnd acc = [] \<or> \<not> isWhiteSpace (last (trimEnd acc))"
proof (cases "dropWhile isWhiteSpace (rev acc)")
  case Nil
  then show ?thesis by (simp add: trimEnd_def)
next
  case (Cons x xs)
  then have "\<not> isWhiteSpace x"
    using hd_dropWhile [of isWhiteSpace "rev acc"] by simp
  then show ?thesis using Cons by (simp add: trimEnd_def)
qed

section \<open>Observer slots\<close>

lemma slot_invoke:
  "slot ch (invoke toString c s) = (case registers ch c of Some h \<Rightarrow> Some h | None \<Rightarrow> slot ch s)"
  by (cases ch; cases c)
    (simp_all add: args_def addArgs_def cwd_method_def opt_def option_def addOptionPair_def
      Let_def onSpawn_def onStdout_def onStderr_def onOutput_def split: optionValue.splits)

lemma chain_snoc: "chain toString (calls @ [c]) s = invoke toString c (chain toString calls s)"
  by (simp add: chain_def)

lemma slot_chain:
  "slot ch (chain toString calls s) =
     (if spec_registrations ch calls = [] then slot ch s
      else Some (last (spec_registrations ch calls)))"
proof (induction calls rule: rev_induct)
  case Nil
  show ?case by (simp add: chain_def spec_registrations_def)
next
  case (snoc c calls)
  have "spec_registrations ch (calls @ [c]) =
          spec_registrations ch calls @ (case registers ch c of Some h \<Rightarrow> [h] | None \<Rightarrow> [])"
    by (simp add: spec_registrations_def List.map_filter_def split: option.splits)
  then show ?case
    using snoc.IH by (simp add: chain_snoc slot_invoke split: option.splits)
qed

section \<open>Path resolution\<close>

lemma resolve_fold:
  assumes seq: "\<And>b f fs. rp (b # f # fs) = rp (rp [b, f] # fs)"
  shows "rp (b # f # fs) = foldl (\<lambda>acc g. rp [acc, g]) b (f # fs)"
proof (induction fs arbitrary: b f)
  case Nil
  show ?case by simp
next
  case (Cons g gs)
  have "rp (b # f # g # gs) = rp (rp [b, f] # g # gs)"
    by (rule seq)
  also have "\<dots> = foldl (\<lambda>acc g. rp [acc, g]) (rp [b, f]) (g # gs)"
    by (rule Cons.IH)
  finally show ?case by simp
qed

lemma splitSlash_nonempty: "splitSlash s \<noteq> []"
  by (induction s) (auto split: list.splits)

lemma splitSlash_slash_free: "x \<in> set (splitSlash s) \<Longrightarrow> slash \<notin> set x"
  by (induction s arbitrary: x) (auto split: list.splits if_splits)

lemma splitSlash_segment:
  "slash \<notin> set seg \<Longrightarrow> splitSlash (seg @ slash # rest) = seg # splitSlash rest"
  by (induction seg) auto

lemma splitSlash_single: "slash \<notin> set seg \<Longrightarrow> splitSlash seg = [seg]"
  by (induction seg) auto

lemma splitSlash_joined:
  "slash \<notin> set x \<Longrightarrow> list_all (\<lambda>seg. slash \<notin> set seg) xs \<Longrightarrow>
     splitSlash (x @ concat (map (\<lambda>seg. slash # seg) xs)) = x # xs"
  by (induction xs arbitrary: x) (simp_all add: splitSlash_single splitSlash_segment)

lemma clean_push: "clean st \<Longrightarrow> slash \<notin> set seg \<Longrightarrow> clean (push st seg)"
  by (auto simp: clean_def push_def list_all_iff dest: in_set_butlastD)

lemma clean_foldl_push:
  "clean st \<Longrightarrow> list_all (\<lambda>seg. slash \<notin> set seg) segs \<Longrightarrow> clean (foldl push st segs)"
  by (induction segs arbitrary: st) (simp_all add: clean_push)

lemma clean_applyFragment: "clean st \<Longrightarrow> clean (applyFragment st f)"
  unfolding applyFragment_def
  by (rule clean_foldl_push) (auto simp: clean_def list_all_iff dest: splitSlash_slash_free)

lemma clean_foldl_applyFragment: "clean st \<Longrightarrow> clean (foldl applyFragment st fs)"
  by (induction fs arbitrary: st) (simp_all add: clean_applyFragment)

lemma foldl_push_clean: "clean st \<Longrightarrow> foldl push acc st = acc @ st"
  by (induction st arbitrary: acc) (simp_all add: clean_def push_def)

lemma isAbsolute_render: "isAbsolute (render st)"
  by (cases st) (simp_all add: render_def isAbsolute_def)

lemma applyFragment_render: "clean st \<Longrightarrow> applyFragment st' (render st) = st"
proof (cases st)
  case Nil
  then show ?thesis
    by (simp add: applyFragment_def isAbsolute_render) (simp add: render_def push_def)
next
  case (Cons x xs)
  assume c: "clean st"
  then have "slash \<notin> set x" and "list_all (\<lambda>seg. slash \<notin> set seg) xs"
    using Cons by (simp_all add: clean_def list_all_iff)
  then have "splitSlash (render st) = [] # st"
    using Cons by (simp add: render_def splitSlash_joined)
  then have "applyFragment st' (render st) = foldl push (push [] []) st"
    by (simp add: applyFragment_def isAbsolute_render)
  also have "push [] [] = []"
    by (simp add: push_def)
  finally show ?thesis
    using c by (simp add: foldl_push_clean)
qed

lemma posixResolve_sequential:
  "posixResolve c (b # f # fs) = posixResolve c (posixResolve c [b, f] # fs)"
proof -
  have "clean (applyFragment [] c)"
    by (rule clean_applyFragment) (simp add: clean_def)
  then have "clean (foldl applyFragment (applyFragment [] c) [b, f])"
    by (rule clean_foldl_applyFragment)
  then show ?thesis
    by (simp add: posixResolve_def applyFragment_render)
qed

lemma posixResolve_absolute:
  "isAbsolute f \<Longrightarrow> posixResolve c [b, f] = posixResolve c [f]"
  by (simp add: posixResolve_def applyFragment_def)

section \<open>The properties of the specification\<close>

text \<open>
  C1. In an execution that started a process (\<open>cwd()\<close> returned), when the \<open>"close"\<close>
  event arrives while the promise is pending (only spawn and data events came before
  it), the result settles then and stays settled: as Success
  when the exit code is exactly 0, as Failure for any other code and when the code is
  absent (termination by a signal). The Failure carries the code and the signal of the
  event, each absent when the event has none.
\<close>

theorem C1_close_settles:
  assumes "list_all (\<lambda>e. \<not> settles (snd e)) pre"
  shows "(let s1 = (obj (runOrRead resolvePath (CwdReturns processCwd) t0 pre s))\<lparr>p_code := c, p_signal := sg\<rparr>
          in promise (runOrRead resolvePath (CwdReturns processCwd) t0 (pre @ (t, CloseEvent c sg) # post) s) =
               Some (if c = Some 0 then Ok (commandSuccess t s1) else Err (commandError t s1)) \<and>
             code (commandError t s1) = c \<and> signal (commandError t s1) = sg)"
proof -
  let ?w1 = "runOrRead resolvePath (CwdReturns processCwd) t0 pre s"
  have pending: "promise ?w1 = None"
    using assms by (rule runOrRead_pending)
  have "runOrRead resolvePath (CwdReturns processCwd) t0 (pre @ (t, CloseEvent c sg) # post) s =
          foldl (\<lambda>w' e. deliver e w') (deliver (t, CloseEvent c sg) ?w1) post"
    by (simp add: runOrRead_append)
  then show ?thesis
    using close_pending [OF pending, of t c sg]
    by (simp add: Let_def events_settled code_commandError signal_commandError)
qed

theorem C1_close_settles_witness:
  "list_all (\<lambda>e. \<not> settles (snd e))
     [(1, SpawnEvent), (2, DataEvent Stdout (str ''out '')), (3, DataEvent Stderr (str ''warn''))] \<and>
   promise (runOrRead demo_resolve (CwdReturns (str ''/srv'')) 0
     ([(1, SpawnEvent), (2, DataEvent Stdout (str ''out '')), (3, DataEvent Stderr (str ''warn''))] @
      (9, CloseEvent None (Some (str ''SIGTERM''))) # [(10, ErrorEvent Nullish)])
     demo_command) =
   Some (Err \<lparr> executable = str ''tool'', commandArgs = [str ''go'', str ''-n'', str ''3''],
               cwd = str ''/tmp/work'', duration = 9, output = str ''out warn'',
               stderr = str ''warn'', stdout = str ''out'',
               code = None, signal = Some (str ''SIGTERM'') \<rparr>)"
proof -
  let ?pre = "[(1, SpawnEvent), (2, DataEvent Stdout (str ''out '')),
               (3, DataEvent Stderr (str ''warn''))]"
  have h: "list_all (\<lambda>e. \<not> settles (snd e)) ?pre"
    by simp
  have built: "commandError 9
      ((obj (runOrRead demo_resolve (CwdReturns (str ''/srv'')) 0 ?pre demo_command))
         \<lparr>p_code := None, p_signal := Some (str ''SIGTERM'')\<rparr>) =
      \<lparr> executable = str ''tool'', commandArgs = [str ''go'', str ''-n'', str ''3''],
        cwd = str ''/tmp/work'', duration = 9, output = str ''out warn'',
        stderr = str ''warn'', stdout = str ''out'',
        code = None, signal = Some (str ''SIGTERM'') \<rparr>"
    by code_simp
  from C1_close_settles [OF h, where resolvePath = demo_resolve and processCwd = "str ''/srv''"
      and ?t0.0 = 0 and s = demo_command and c = None and sg = "Some (str ''SIGTERM'')"
      and t = 9 and post = "[(10, ErrorEvent Nullish)]"]
  show ?thesis
    using h built by (simp add: Let_def)
qed

text \<open>
  C2. In an execution that called \<open>spawn\<close> (\<open>cwd()\<close> returned), when an \<open>"error"\<close>
  event whose error carries a string code arrives while the promise is pending, the
  result settles as Failure with the exit-code field equal to
  the sentinel \<open>-2\<close>, and the line \<open>code: message\<close> is appended to the stderr
  accumulator (and to the combined one) before the outcome is built, so the outcome's
  stderr field is the trimmed accumulator including that line.
\<close>

theorem C2_spawn_failure:
  assumes "list_all (\<lambda>e. \<not> settles (snd e)) pre"
  shows "(let w1 = runOrRead resolvePath (CwdReturns processCwd) t0 pre s;
              diagnostic = errorCode @ str '': '' @ message;
              s2 = (obj w1)\<lparr>p_code := Some SPAWN_MISSING_EXE_CODE,
                             p_stderrContents := p_stderrContents (obj w1) @ diagnostic,
                             p_outputContents := p_outputContents (obj w1) @ diagnostic\<rparr>
          in promise (runOrRead resolvePath (CwdReturns processCwd) t0
                        (pre @ (t, ErrorEvent (Object (CodeString errorCode) message)) # post) s) =
               Some (Err (commandError t s2)) \<and>
             code (commandError t s2) = Some (- 2) \<and>
             stderr (commandError t s2) = trimEnd (p_stderrContents (obj w1) @ diagnostic))"
proof -
  let ?w1 = "runOrRead resolvePath (CwdReturns processCwd) t0 pre s"
  let ?ev = "(t, ErrorEvent (Object (CodeString errorCode) message))"
  have pending: "promise ?w1 = None"
    using assms by (rule runOrRead_pending)
  have split: "runOrRead resolvePath (CwdReturns processCwd) t0 (pre @ ?ev # post) s =
          foldl (\<lambda>w' e. deliver e w') (deliver ?ev ?w1) post"
    by (simp add: runOrRead_append)
  have "promise (deliver ?ev ?w1) =
          Some (Err (commandError t
            ((obj ?w1)\<lparr>p_code := Some SPAWN_MISSING_EXE_CODE,
                         p_stderrContents := p_stderrContents (obj ?w1) @ errorCode @ str '': '' @ message,
                         p_outputContents := p_outputContents (obj ?w1) @ errorCode @ str '': '' @ message\<rparr>)))"
    using error_pending [OF pending, of t errorCode message]
    by (simp add: Let_def onChunk_Stderr)
  then show ?thesis
    unfolding split
    by (simp add: Let_def events_settled code_commandError SPAWN_MISSING_EXE_CODE_def
        commandError_eq commandSuccess_def FluentCommandSuccess.defs FluentCommandError.defs)
qed

theorem C2_spawn_failure_witness:
  "list_all (\<lambda>e. \<not> settles (snd e)) ([] :: (real \<times> procEvent) list) \<and>
   promise (runOrRead demo_resolve (CwdReturns (str ''/srv'')) 0
     ([] @
      (2, ErrorEvent (Object (CodeString (str ''ENOENT'')) (str ''spawn tool ENOENT''))) #
      [(3, CloseEvent (Some (- 2)) None)])
     demo_command) =
   Some (Err \<lparr> executable = str ''tool'', commandArgs = [str ''go'', str ''-n'', str ''3''],
               cwd = str ''/tmp/work'', duration = 2,
               output = str ''ENOENT: spawn tool ENOENT'',
               stderr = str ''ENOENT: spawn tool ENOENT'', stdout = [],
               code = Some (- 2), signal = None \<rparr>)"
proof -
  have h: "list_all (\<lambda>e. \<not> settles (snd e)) ([] :: (real \<times> procEvent) list)"
    by simp
  have built: "commandError 2
      ((obj (runOrRead demo_resolve (CwdReturns (str ''/srv'')) 0 [] demo_command))
         \<lparr>p_code := Some SPAWN_MISSING_EXE_CODE,
           p_stderrContents :=
             p_stderrContents (obj (runOrRead demo_resolve (CwdReturns (str ''/srv'')) 0 [] demo_command)) @
               str ''ENOENT'' @ str '': '' @ str ''spawn tool ENOENT'',
           p_outputContents :=
             p_outputContents (obj (runOrRead demo_resolve (CwdReturns (str ''/srv'')) 0 [] demo_command)) @
               str ''ENOENT'' @ str '': '' @ str ''spawn tool ENOENT''\<rparr>) =
      \<lparr> executable = str ''tool'', commandArgs = [str ''go'', str ''-n'', str ''3''],
        cwd = str ''/tmp/work'', duration = 2,
        output = str ''ENOENT: spawn tool ENOENT'',
        stderr = str ''ENOENT: spawn tool ENOENT'', stdout = [],
        code = Some (- 2), signal = None \<rparr>"
    by code_simp
  from C2_spawn_failure [OF h, where resolvePath = demo_resolve and processCwd = "str ''/srv''"
      and ?t0.0 = 0 and s = demo_command and errorCode = "str ''ENOENT''"
      and message = "str ''spawn tool ENOENT''" and t = 2
      and post = "[(3, CloseEvent (Some (- 2)) None)]"]
  show ?thesis
    using h built by (simp add: Let_def)
qed

text \<open>
  C4. On the same outcome of \<open>cwd()\<close> and the same events, \<open>run()\<close> and \<open>read()\<close>
  leave the same object but for the
  silence flag (so the same stdout, stderr and combined accumulators), settle to the
  same outcome, and call the registered observers identically: the effects of
  \<open>read()\<close> are those of \<open>run()\<close> without the writes. The writes of \<open>run()\<close> are
  exactly the chunks handled by \<open>#onChunk\<close>, in order, each to the stream it belongs
  to (the data chunks and, on a spawn failure, the diagnostic line); \<open>read()\<close> writes
  nothing.
\<close>

theorem C4_run_read:
  "(let r = run resolvePath processCwd t0 evs s;
        d = read resolvePath processCwd t0 evs s
    in obj r = (obj d)\<lparr>p_shouldBeSilent := False\<rparr> \<and>
       p_stdoutContents (obj r) = p_stdoutContents (obj d) \<and>
       p_stderrContents (obj r) = p_stderrContents (obj d) \<and>
       p_outputContents (obj r) = p_outputContents (obj d) \<and>
       promise r = promise d \<and>
       trace d = filter (\<lambda>e. \<not> isProcessWrite e) (trace r) \<and>
       filter isProcessWrite (trace r) = writesOf (spec_execution processCwd evs) \<and>
       filter isProcessWrite (trace d) = [])"
proof -
  let ?r = "run resolvePath processCwd t0 evs s"
  let ?d = "read resolvePath processCwd t0 evs s"
  have sim: "obj ?r = (obj ?d)\<lparr>p_shouldBeSilent := False\<rparr> \<and> promise ?r = promise ?d"
  proof (cases processCwd)
    case (CwdReturns dir)
    show ?thesis
      unfolding run_def read_def runOrRead_def Let_def CwdReturns cwdResult.case
      by (rule sim_events) simp_all
  next
    case (CwdThrows err now)
    show ?thesis
      unfolding run_def read_def runOrRead_def Let_def CwdThrows cwdResult.case
      by (rule sim_reject) simp_all
  qed
  then have acc: "p_stdoutContents (obj ?r) = p_stdoutContents (obj ?d)"
      "p_stderrContents (obj ?r) = p_stderrContents (obj ?d)"
      "p_outputContents (obj ?r) = p_outputContents (obj ?d)"
    by simp_all
  have spawn: "spawnCall resolvePath processCwd (s\<lparr>p_shouldBeSilent := b\<rparr>) =
      spawnCall resolvePath processCwd s"
      "filter isProcessWrite (spawnCall resolvePath processCwd s) = []"
      "filter (\<lambda>e. \<not> isProcessWrite e) (spawnCall resolvePath processCwd s) =
         spawnCall resolvePath processCwd s" for b
    by (cases processCwd; simp)+
  have "spec_effects (started resolvePath processCwd t0 (s\<lparr>p_shouldBeSilent := True\<rparr>)) =
        spec_effects ((started resolvePath processCwd t0 (s\<lparr>p_shouldBeSilent := False\<rparr>))
                        \<lparr>p_shouldBeSilent := True\<rparr>)"
    by (rule ext, rule spec_effects_config) (cases processCwd; simp add: config_def)
  then have calls: "trace ?d = filter (\<lambda>e. \<not> isProcessWrite e) (trace ?r)"
    by (simp add: run_def read_def trace_execution spawn filter_concat comp_def
        filter_spec_effects_calls)
  have noisy: "p_shouldBeSilent (started resolvePath processCwd t0 (s\<lparr>p_shouldBeSilent := b\<rparr>)) = b"
    for b
    by (cases processCwd) simp_all
  have writes: "filter isProcessWrite (trace ?r) = writesOf (spec_execution processCwd evs)"
    by (simp add: run_def trace_execution spawn noisy filter_concat comp_def
        filter_spec_effects_writes concat_writesOf)
  have silent: "filter isProcessWrite (trace ?d) = []"
    by (simp add: read_def trace_execution spawn noisy filter_concat comp_def
        filter_spec_effects_writes)
  show ?thesis
    using sim acc calls writes silent by (simp add: Let_def)
qed

theorem C4_run_read_witness:
  "trace (run demo_resolve (CwdReturns (str ''/srv'')) 0
     [(1, SpawnEvent), (2, DataEvent Stdout (str ''a'')), (3, DataEvent Stderr (str ''b'')),
      (4, CloseEvent (Some 0) None)] demo_command) =
   [SpawnProcess (str ''tool'') [str ''go'', str ''-n'', str ''3''] (str ''/tmp/work''),
    CallSpawnHandler 4 \<lparr> executable = str ''tool'',
      commandArgs = [str ''go'', str ''-n'', str ''3''], cwd = str ''/tmp/work'' \<rparr>,
    CallOutputHandler 1 (str ''a''), CallOutputHandler 3 (str ''a''), ProcessWrite Stdout (str ''a''),
    CallOutputHandler 2 (str ''b''), CallOutputHandler 3 (str ''b''), ProcessWrite Stderr (str ''b'')] \<and>
   trace (read demo_resolve (CwdReturns (str ''/srv'')) 0
     [(1, SpawnEvent), (2, DataEvent Stdout (str ''a'')), (3, DataEvent Stderr (str ''b'')),
      (4, CloseEvent (Some 0) None)] demo_command) =
   [SpawnProcess (str ''tool'') [str ''go'', str ''-n'', str ''3''] (str ''/tmp/work''),
    CallSpawnHandler 4 \<lparr> executable = str ''tool'',
      commandArgs = [str ''go'', str ''-n'', str ''3''], cwd = str ''/tmp/work'' \<rparr>,
    CallOutputHandler 1 (str ''a''), CallOutputHandler 3 (str ''a''),
    CallOutputHandler 2 (str ''b''), CallOutputHandler 3 (str ''b'')] \<and>
   promise (run demo_resolve (CwdReturns (str ''/srv'')) 0
     [(1, SpawnEvent), (2, DataEvent Stdout (str ''a'')), (3, DataEvent Stderr (str ''b'')),
      (4, CloseEvent (Some 0) None)] demo_command) =
   promise (read demo_resolve (CwdReturns (str ''/srv'')) 0
     [(1, SpawnEvent), (2, DataEvent Stdout (str ''a'')), (3, DataEvent Stderr (str ''b'')),
      (4, CloseEvent (Some 0) None)] demo_command)"
proof -
  have noisy: "trace (run demo_resolve (CwdReturns (str ''/srv'')) 0
     [(1, SpawnEvent), (2, DataEvent Stdout (str ''a'')), (3, DataEvent Stderr (str ''b'')),
      (4, CloseEvent (Some 0) None)] demo_command) =
   [SpawnProcess (str ''tool'') [str ''go'', str ''-n'', str ''3''] (str ''/tmp/work''),
    CallSpawnHandler 4 \<lparr> executable = str ''tool'',
      commandArgs = [str ''go'', str ''-n'', str ''3''], cwd = str ''/tmp/work'' \<rparr>,
    CallOutputHandler 1 (str ''a''), CallOutputHandler 3 (str ''a''), ProcessWrite Stdout (str ''a''),
    CallOutputHandler 2 (str ''b''), CallOutputHandler 3 (str ''b''), ProcessWrite Stderr (str ''b'')]"
    by code_simp
  from C4_run_read [where resolvePath = demo_resolve and processCwd = "CwdReturns (str ''/srv'')"
      and ?t0.0 = 0 and s = demo_command
      and evs = "[(1, SpawnEvent), (2, DataEvent Stdout (str ''a'')),
        (3, DataEvent Stderr (str ''b'')), (4, CloseEvent (Some 0) None)]"]
  show ?thesis
    using noisy by (simp add: Let_def)
qed

text \<open>
  C5. After any sequence of chunk arrivals, from any state, the combined accumulator
  has grown by the concatenation of all the chunks in arrival order, the stdout
  accumulator by the stdout chunks and the stderr accumulator by the stderr chunks.
  The same holds over a whole execution, for the chunks its events deliver (when
  \<open>cwd()\<close> throws, the one diagnostic line of that rejection, if it has a string code).
\<close>

theorem C5_accumulators:
  "p_outputContents (obj (feed chunks w)) = p_outputContents (obj w) @ concat (map snd chunks) \<and>
   p_stdoutContents (obj (feed chunks w)) =
     p_stdoutContents (obj w) @ concat (map snd (filter (\<lambda>p. fst p = Stdout) chunks)) \<and>
   p_stderrContents (obj (feed chunks w)) =
     p_stderrContents (obj w) @ concat (map snd (filter (\<lambda>p. fst p = Stderr) chunks)) \<and>
   p_outputContents (obj (runOrRead resolvePath processCwd t0 evs s)) =
     p_outputContents s @ concat (allChunks (spec_execution processCwd evs)) \<and>
   p_stdoutContents (obj (runOrRead resolvePath processCwd t0 evs s)) =
     p_stdoutContents s @ concat (chunksOf Stdout (spec_execution processCwd evs)) \<and>
   p_stderrContents (obj (runOrRead resolvePath processCwd t0 evs s)) =
     p_stderrContents s @ concat (chunksOf Stderr (spec_execution processCwd evs))"
  using contents_feed [of chunks w] contents_execution [of resolvePath processCwd t0 evs s]
  by simp

theorem C5_accumulators_witness:
  "p_outputContents (obj (feed [(Stdout, str ''a''), (Stderr, str ''b''), (Stdout, str ''c'')]
      \<lparr> obj = demo_command, trace = [], promise = None \<rparr>)) = str ''abc'' \<and>
   p_stdoutContents (obj (feed [(Stdout, str ''a''), (Stderr, str ''b''), (Stdout, str ''c'')]
      \<lparr> obj = demo_command, trace = [], promise = None \<rparr>)) = str ''ac'' \<and>
   p_stderrContents (obj (feed [(Stdout, str ''a''), (Stderr, str ''b''), (Stdout, str ''c'')]
      \<lparr> obj = demo_command, trace = [], promise = None \<rparr>)) = str ''b''"
  using C5_accumulators [where chunks = "[(Stdout, str ''a''), (Stderr, str ''b''), (Stdout, str ''c'')]"
      and w = "\<lparr> obj = demo_command, trace = [], promise = None \<rparr>"
      and resolvePath = demo_resolve and processCwd = "CwdReturns []" and ?t0.0 = 0
      and evs = "[]" and s = demo_command]
  by (simp add: demo_defs)

text \<open>
  C6, as stated, fails: the executor calls \<open>cwd()\<close> before it assigns the resolved
  directory and before it spawns, so when that call throws nothing is resolved at all.
  The execution below runs the demonstration command (fragments \<open>/tmp\<close> and \<open>work\<close>)
  in a process whose current directory has been removed: the recorded working
  directory stays empty, it is not the resolution of the fragments, \<open>spawn\<close> is never
  called, and the result is a Failure whose \<open>cwd\<close> is the empty string.
\<close>

theorem C6_working_directory_counterexample:
  "p_resolvedCwd (obj (run demo_resolve
      (CwdThrows (Object (CodeString (str ''ENOENT''))
                    (str ''ENOENT: no such file or directory, uv_cwd'')) 1)
      0 [] demo_command)) = [] \<and>
   p_resolvedCwd (obj (run demo_resolve
      (CwdThrows (Object (CodeString (str ''ENOENT''))
                    (str ''ENOENT: no such file or directory, uv_cwd'')) 1)
      0 [] demo_command)) \<noteq>
     demo_resolve (demo_resolve [str ''/srv''] # p_cwdPath demo_command #
                     p_extraCwdPathPieces demo_command) \<and>
   demo_resolve (demo_resolve [str ''/srv''] # p_cwdPath demo_command #
                   p_extraCwdPathPieces demo_command) = str ''/tmp/work'' \<and>
   filter isSpawnProcess (trace (run demo_resolve
      (CwdThrows (Object (CodeString (str ''ENOENT''))
                    (str ''ENOENT: no such file or directory, uv_cwd'')) 1)
      0 [] demo_command)) = [] \<and>
   promise (run demo_resolve
      (CwdThrows (Object (CodeString (str ''ENOENT''))
                    (str ''ENOENT: no such file or directory, uv_cwd'')) 1)
      0 [] demo_command) =
     Some (Err \<lparr> executable = str ''tool'', commandArgs = [str ''go'', str ''-n'', str ''3''],
                 cwd = [], duration = 1,
                 output = str ''ENOENT: ENOENT: no such file or directory, uv_cwd'',
                 stderr = str ''ENOENT: ENOENT: no such file or directory, uv_cwd'',
                 stdout = [], code = Some (- 2), signal = None \<rparr>)"
  by code_simp

text \<open>
  C6, amended. In every execution in which \<open>cwd()\<close> returns, the working directory is
  resolved by one call of the path utility at the start of the execution, on the
  resolved current directory of the process, the base fragment and the extra fragments
  in order; no event changes it afterwards, the process is spawned in it, and
  \<open>cwd(...)\<close> of the builder does not resolve anything. For a path utility that joins
  its fragments one after the other and lets an absolute fragment override what
  precedes it, the result is the left-to-right join from the anchor, and an absolute
  fragment at any position discards everything before it. In an execution in which
  \<open>cwd()\<close> throws, nothing is resolved: the recorded directory is left as it was, no
  process is spawned, no event is taken, and the result settles as the Failure that the
  error mapper builds, whose \<open>cwd\<close> is that unchanged directory.
\<close>

theorem C6_working_directory:
  assumes seq: "\<And>b f fs. resolvePath (b # f # fs) = resolvePath (resolvePath [b, f] # fs)"
      and override: "\<And>b f. absolute f \<Longrightarrow> resolvePath [b, f] = resolvePath [f]"
  shows "(let join = (\<lambda>acc f. resolvePath [acc, f]);
              anchor = resolvePath [processCwd];
              resolved = p_resolvedCwd (obj (runOrRead resolvePath (CwdReturns processCwd) t0 evs s))
          in resolved = resolvePath (anchor # p_cwdPath s # p_extraCwdPathPieces s) \<and>
             resolved = foldl join anchor (p_cwdPath s # p_extraCwdPathPieces s) \<and>
             (\<forall>before f after.
                 p_cwdPath s # p_extraCwdPathPieces s = before @ f # after \<and> absolute f \<longrightarrow>
                 resolved = foldl join (resolvePath [f]) after) \<and>
             resolved = p_resolvedCwd (obj (runOrRead resolvePath (CwdReturns processCwd) t0 [] s)) \<and>
             hd (trace (runOrRead resolvePath (CwdReturns processCwd) t0 evs s)) =
               SpawnProcess (p_executable s) (p_commandArgs s) resolved \<and>
             p_resolvedCwd (cwd_method cwdPath extraCwdPathPieces s) = p_resolvedCwd s) \<and>
         (let failed = runOrRead resolvePath (CwdThrows err now) t0 evs s
          in p_resolvedCwd (obj failed) = p_resolvedCwd s \<and>
             filter isSpawnProcess (trace failed) = [] \<and>
             failed = runOrRead resolvePath (CwdThrows err now) t0 [] s \<and>
             promise failed = Some (Err (commandError now (obj failed))) \<and>
             cwd (commandError now (obj failed)) = p_resolvedCwd s)"
proof -
  let ?join = "\<lambda>acc f. resolvePath [acc, f]"
  let ?anchor = "resolvePath [processCwd]"
  let ?frags = "p_cwdPath s # p_extraCwdPathPieces s"
  let ?resolved = "p_resolvedCwd (obj (runOrRead resolvePath (CwdReturns processCwd) t0 evs s))"
  let ?failed = "runOrRead resolvePath (CwdThrows err now) t0 evs s"
  have once: "?resolved = resolvePath (?anchor # ?frags)"
    by (rule resolvedCwd_runOrRead)
  have folded: "resolvePath (?anchor # ?frags) = foldl ?join ?anchor ?frags"
    by (rule resolve_fold [of resolvePath, OF seq])
  have abs: "?resolved = foldl ?join (resolvePath [f]) after"
    if "?frags = before @ f # after \<and> absolute f" for before f after
  proof -
    have "foldl ?join ?anchor ?frags = foldl ?join ?anchor (before @ f # after)"
      using that by simp
    also have "\<dots> = foldl ?join (resolvePath [foldl ?join ?anchor before, f]) after"
      by simp
    also have "resolvePath [foldl ?join ?anchor before, f] = resolvePath [f]"
      using that by (intro override) simp
    finally show ?thesis
      using once folded by simp
  qed
  have start: "?resolved = p_resolvedCwd (obj (runOrRead resolvePath (CwdReturns processCwd) t0 [] s))"
    by (simp only: resolvedCwd_runOrRead)
  have spawn: "hd (trace (runOrRead resolvePath (CwdReturns processCwd) t0 evs s)) =
      SpawnProcess (p_executable s) (p_commandArgs s) ?resolved"
    by (simp add: trace_runOrRead resolvedCwd_runOrRead)
  have builder: "p_resolvedCwd (cwd_method cwdPath extraCwdPathPieces s) = p_resolvedCwd s"
    by (simp add: cwd_method_def)
  from once folded have fold2: "?resolved = foldl ?join ?anchor ?frags"
    by (rule trans)
  have returns: "?resolved = resolvePath (?anchor # ?frags) \<and>
      ?resolved = foldl ?join ?anchor ?frags \<and>
      (\<forall>before f after. ?frags = before @ f # after \<and> absolute f \<longrightarrow>
         ?resolved = foldl ?join (resolvePath [f]) after) \<and>
      ?resolved = p_resolvedCwd (obj (runOrRead resolvePath (CwdReturns processCwd) t0 [] s)) \<and>
      hd (trace (runOrRead resolvePath (CwdReturns processCwd) t0 evs s)) =
        SpawnProcess (p_executable s) (p_commandArgs s) ?resolved \<and>
      p_resolvedCwd (cwd_method cwdPath extraCwdPathPieces s) = p_resolvedCwd s"
    using once fold2 abs start spawn builder by blast
  let ?w0 = "\<lparr> obj = s\<lparr>p_startTime := t0\<rparr>, trace = [], promise = None \<rparr> :: 'a world"
  have unresolved: "p_resolvedCwd (obj ?failed) = p_resolvedCwd s"
    by (rule resolvedCwd_throws)
  have nospawn: "filter isSpawnProcess (trace ?failed) = []"
    by (cases err rule: rejection.exhaust)
      (simp_all add: trace_execution invocation_def mirrored_def
        split: codeProperty.splits option.splits)
  have noevents: "?failed = runOrRead resolvePath (CwdThrows err now) t0 [] s"
    by (simp only: runOrRead_throws)
  have "promise ?failed = Some (Ok (commandSuccess now (obj ?failed))) \<or>
        promise ?failed = Some (Err (commandError now (obj ?failed)))"
    unfolding runOrRead_throws
    by (rule settle_outcome) simp_all
  moreover have "promise ?failed \<noteq> Some (Ok v)" for v
    by (simp add: runOrRead_throws reject_pending)
  ultimately have failure: "promise ?failed = Some (Err (commandError now (obj ?failed)))"
    by blast
  have field: "cwd (commandError now (obj ?failed)) = p_resolvedCwd s"
    using unresolved
    by (simp add: commandError_eq commandSuccess_def FluentCommandSuccess.defs
        FluentCommandError.defs)
  show ?thesis
    unfolding Let_def
    using returns unresolved nospawn noevents failure field by blast
qed

theorem C6_working_directory_witness:
  "p_resolvedCwd (obj (runOrRead demo_resolve (CwdReturns (str ''/srv'')) 0 [(1, SpawnEvent)]
      (cwd_method (str ''rel/x'') [str ''/a/./c'', str ''../b''] demo_command))) =
     foldl (\<lambda>acc f. demo_resolve [acc, f]) (demo_resolve [str ''/a/./c'']) [str ''../b''] \<and>
   p_resolvedCwd (obj (runOrRead demo_resolve (CwdReturns (str ''/srv'')) 0 [(1, SpawnEvent)]
      (cwd_method (str ''rel/x'') [str ''/a/./c'', str ''../b''] demo_command))) = str ''/a/b'' \<and>
   p_resolvedCwd (obj (runOrRead demo_resolve (CwdThrows Nullish 1) 0 [(1, SpawnEvent)]
      (cwd_method (str ''rel/x'') [str ''/a/./c'', str ''../b''] demo_command))) = []"
proof -
  have seq: "\<And>b f fs. demo_resolve (b # f # fs) = demo_resolve (demo_resolve [b, f] # fs)"
    unfolding demo_resolve_def by (rule posixResolve_sequential)
  have override: "\<And>b f. isAbsolute f \<Longrightarrow> demo_resolve [b, f] = demo_resolve [f]"
    unfolding demo_resolve_def by (rule posixResolve_absolute)
  let ?s = "cwd_method (str ''rel/x'') [str ''/a/./c'', str ''../b''] demo_command"
  have frags: "p_cwdPath ?s # p_extraCwdPathPieces ?s = [str ''rel/x''] @ str ''/a/./c'' # [str ''../b''] \<and>
      isAbsolute (str ''/a/./c'')"
    by (simp add: cwd_method_def isAbsolute_def slash_def str_def)
  have before: "p_resolvedCwd ?s = []"
    by code_simp
  note inst = C6_working_directory [where resolvePath = demo_resolve and absolute = isAbsolute
      and processCwd = "str ''/srv''" and ?t0.0 = 0 and evs = "[(1, SpawnEvent)]" and s = ?s
      and err = Nullish and now = 1, OF seq override]
  from inst
  have "p_resolvedCwd (obj (runOrRead demo_resolve (CwdReturns (str ''/srv'')) 0 [(1, SpawnEvent)] ?s)) =
      foldl (\<lambda>acc f. demo_resolve [acc, f]) (demo_resolve [str ''/a/./c'']) [str ''../b'']"
    unfolding Let_def using frags by blast
  moreover have "foldl (\<lambda>acc f. demo_resolve [acc, f]) (demo_resolve [str ''/a/./c''])
      [str ''../b''] = str ''/a/b''"
    by (simp add: demo_defs)
  moreover from inst
  have "p_resolvedCwd (obj (runOrRead demo_resolve (CwdThrows Nullish 1) 0 [(1, SpawnEvent)] ?s)) =
      p_resolvedCwd ?s"
    unfolding Let_def by blast
  ultimately show ?thesis
    using before by simp
qed

text \<open>
  C7. The stdout, stderr and combined fields of the outcome, Success or Failure, are
  the accumulators with their trailing whitespace removed, taken at settlement: the
  field is a prefix of the accumulator, what is cut off is whitespace only, and what
  remains does not end in whitespace. A chunk is appended to the accumulators and
  passed to the observers as received: over a whole execution every handler call
  carries the arrived chunk itself. The outcome of an execution in which \<open>cwd()\<close> throws
  is trimmed in the same way.
\<close>

theorem C7_trimming:
  assumes "list_all (\<lambda>e. \<not> settles (snd e)) pre" and "settles ev"
  shows "stdout (commandSuccess now s) = trimEnd (p_stdoutContents s) \<and>
         stderr (commandSuccess now s) = trimEnd (p_stderrContents s) \<and>
         output (commandSuccess now s) = trimEnd (p_outputContents s) \<and>
         stdout (commandError now s) = trimEnd (p_stdoutContents s) \<and>
         stderr (commandError now s) = trimEnd (p_stderrContents s) \<and>
         output (commandError now s) = trimEnd (p_outputContents s) \<and>
         take (length (trimEnd acc)) acc = trimEnd acc \<and>
         list_all isWhiteSpace (drop (length (trimEnd acc)) acc) \<and>
         (trimEnd acc = [] \<or> \<not> isWhiteSpace (last (trimEnd acc))) \<and>
         (let settled = runOrRead resolvePath (CwdReturns processCwd) t0 (pre @ [(t, ev)]) s
          in map_option outcomeText
               (promise (runOrRead resolvePath (CwdReturns processCwd) t0 (pre @ (t, ev) # post) s)) =
             Some (trimEnd (p_stdoutContents (obj settled)),
                   trimEnd (p_stderrContents (obj settled)),
                   trimEnd (p_outputContents (obj settled)))) \<and>
         trace (onChunk src chunk w) =
           trace w @ invocation (slot (channelOf src) (obj w)) chunk @
           invocation (p_outputHandler (obj w)) chunk @
           mirrored (p_shouldBeSilent (obj w)) src chunk \<and>
         obj (onChunk src chunk w) =
           (case src of
              Stdout \<Rightarrow> (obj w)\<lparr>p_stdoutContents := p_stdoutContents (obj w) @ chunk,
                                  p_outputContents := p_outputContents (obj w) @ chunk\<rparr>
            | Stderr \<Rightarrow> (obj w)\<lparr>p_stderrContents := p_stderrContents (obj w) @ chunk,
                                  p_outputContents := p_outputContents (obj w) @ chunk\<rparr>) \<and>
         trace (runOrRead resolvePath (CwdReturns processCwd) t0 evs s) =
           hd (trace (runOrRead resolvePath (CwdReturns processCwd) t0 [] s)) #
           concat (map (spec_effects (obj (runOrRead resolvePath (CwdReturns processCwd) t0 [] s)))
                     (spec_arrivals True evs)) \<and>
         (let failed = runOrRead resolvePath (CwdThrows err now') t0 evs s
          in map_option outcomeText (promise failed) =
             Some (trimEnd (p_stdoutContents (obj failed)),
                   trimEnd (p_stderrContents (obj failed)),
                   trimEnd (p_outputContents (obj failed)))) \<and>
         trace (runOrRead resolvePath cwdOutcome t0 evs s) =
           spawnCall resolvePath cwdOutcome s @
           concat (map (spec_effects (started resolvePath cwdOutcome t0 s))
                     (spec_execution cwdOutcome evs))"
proof -
  let ?w1 = "runOrRead resolvePath (CwdReturns processCwd) t0 pre s"
  have pending: "promise ?w1 = None"
    using assms(1) by (rule runOrRead_pending)
  have "promise (runOrRead resolvePath (CwdReturns processCwd) t0 (pre @ (t, ev) # post) s) =
          promise (deliver (t, ev) ?w1)"
    using settle_outcome [OF pending assms(2), of t]
    by (auto simp: runOrRead_append events_settled)
  moreover have "runOrRead resolvePath (CwdReturns processCwd) t0 (pre @ [(t, ev)]) s = deliver (t, ev) ?w1"
    by (simp add: runOrRead_append)
  ultimately have settled:
    "(let settled = runOrRead resolvePath (CwdReturns processCwd) t0 (pre @ [(t, ev)]) s
      in map_option outcomeText
           (promise (runOrRead resolvePath (CwdReturns processCwd) t0 (pre @ (t, ev) # post) s)) =
         Some (trimEnd (p_stdoutContents (obj settled)),
               trimEnd (p_stderrContents (obj settled)),
               trimEnd (p_outputContents (obj settled))))"
    using outcomeText_settled [OF pending assms(2), of t] by (simp add: Let_def)
  have calls: "trace (onChunk src chunk w) =
           trace w @ invocation (slot (channelOf src) (obj w)) chunk @
           invocation (p_outputHandler (obj w)) chunk @
           mirrored (p_shouldBeSilent (obj w)) src chunk"
    by (cases src) (simp_all add: onChunk_Stdout onChunk_Stderr)
  have grows: "obj (onChunk src chunk w) =
           (case src of
              Stdout \<Rightarrow> (obj w)\<lparr>p_stdoutContents := p_stdoutContents (obj w) @ chunk,
                                  p_outputContents := p_outputContents (obj w) @ chunk\<rparr>
            | Stderr \<Rightarrow> (obj w)\<lparr>p_stderrContents := p_stderrContents (obj w) @ chunk,
                                  p_outputContents := p_outputContents (obj w) @ chunk\<rparr>)"
    by (cases src) (simp_all add: onChunk_Stdout onChunk_Stderr)
  have whole: "trace (runOrRead resolvePath (CwdReturns processCwd) t0 evs s) =
           hd (trace (runOrRead resolvePath (CwdReturns processCwd) t0 [] s)) #
           concat (map (spec_effects (obj (runOrRead resolvePath (CwdReturns processCwd) t0 [] s)))
                     (spec_arrivals True evs))"
    by (simp add: runOrRead_def Let_def trace_events)
  have thrown:
    "(let failed = runOrRead resolvePath (CwdThrows err now') t0 evs s
      in map_option outcomeText (promise failed) =
         Some (trimEnd (p_stdoutContents (obj failed)),
               trimEnd (p_stderrContents (obj failed)),
               trimEnd (p_outputContents (obj failed))))"
    unfolding Let_def runOrRead_throws
    by (rule outcomeText_settled) simp_all
  have every: "trace (runOrRead resolvePath cwdOutcome t0 evs s) =
           spawnCall resolvePath cwdOutcome s @
           concat (map (spec_effects (started resolvePath cwdOutcome t0 s))
                     (spec_execution cwdOutcome evs))"
    by (rule trace_execution)
  show ?thesis
    using settled calls grows whole thrown every trimEnd_prefix [of acc] trimEnd_suffix [of acc]
      trimEnd_last [of acc]
    by (simp only: text_commandSuccess text_commandError simp_thms)
qed

theorem C7_trimming_witness:
  "list_all (\<lambda>e. \<not> settles (snd e)) [(1, DataEvent Stdout (str ''hi '' @ [0x0A]))] \<and>
   settles (CloseEvent (Some 0) None) \<and>
   map_option outcomeText (promise (runOrRead demo_resolve (CwdReturns (str ''/srv'')) 0
      ([(1, DataEvent Stdout (str ''hi '' @ [0x0A]))] @ (2, CloseEvent (Some 0) None) # [])
      demo_command)) = Some (str ''hi'', [], str ''hi'') \<and>
   trace (onChunk Stdout (str ''hi '' @ [0x0A]) \<lparr> obj = demo_command, trace = [], promise = None \<rparr>) =
     [CallOutputHandler 1 (str ''hi '' @ [0x0A]), CallOutputHandler 3 (str ''hi '' @ [0x0A])]"
proof -
  let ?pre = "[(1 :: real, DataEvent Stdout (str ''hi '' @ [0x0A]))]"
  let ?w = "\<lparr> obj = demo_command, trace = [], promise = None \<rparr> :: nat world"
  have h1: "list_all (\<lambda>e. \<not> settles (snd e)) ?pre"
    by simp
  have h2: "settles (CloseEvent (Some 0) None)"
    by simp
  have trimmed:
    "trimEnd (p_stdoutContents (obj (runOrRead demo_resolve (CwdReturns (str ''/srv'')) 0
        (?pre @ [(2, CloseEvent (Some 0) None)]) demo_command))) = str ''hi''"
    "trimEnd (p_stderrContents (obj (runOrRead demo_resolve (CwdReturns (str ''/srv'')) 0
        (?pre @ [(2, CloseEvent (Some 0) None)]) demo_command))) = []"
    "trimEnd (p_outputContents (obj (runOrRead demo_resolve (CwdReturns (str ''/srv'')) 0
        (?pre @ [(2, CloseEvent (Some 0) None)]) demo_command))) = str ''hi''"
    by code_simp+
  have slots:
    "invocation (slot (channelOf Stdout) (obj ?w)) (str ''hi '' @ [0x0A]) =
       [CallOutputHandler 1 (str ''hi '' @ [0x0A])]"
    "invocation (p_outputHandler (obj ?w)) (str ''hi '' @ [0x0A]) =
       [CallOutputHandler 3 (str ''hi '' @ [0x0A])]"
    "mirrored (p_shouldBeSilent (obj ?w)) Stdout (str ''hi '' @ [0x0A]) = []"
    "trace ?w = []"
    by code_simp+
  from C7_trimming [OF h1 h2, where t = 2 and post = "[]"
      and resolvePath = demo_resolve and processCwd = "str ''/srv''" and ?t0.0 = 0
      and s = demo_command and src = Stdout and chunk = "str ''hi '' @ [0x0A]"
      and w = ?w and now = 0 and acc = "[]" and evs = "[]"
      and err = Nullish and now' = 0 and cwdOutcome = "CwdReturns []"]
  have "map_option outcomeText (promise (runOrRead demo_resolve (CwdReturns (str ''/srv'')) 0
            (?pre @ (2, CloseEvent (Some 0) None) # []) demo_command)) =
          Some (trimEnd (p_stdoutContents (obj (runOrRead demo_resolve (CwdReturns (str ''/srv'')) 0
                  (?pre @ [(2, CloseEvent (Some 0) None)]) demo_command))),
                trimEnd (p_stderrContents (obj (runOrRead demo_resolve (CwdReturns (str ''/srv'')) 0
                  (?pre @ [(2, CloseEvent (Some 0) None)]) demo_command))),
                trimEnd (p_outputContents (obj (runOrRead demo_resolve (CwdReturns (str ''/srv'')) 0
                  (?pre @ [(2, CloseEvent (Some 0) None)]) demo_command))))"
    and "trace (onChunk Stdout (str ''hi '' @ [0x0A]) ?w) =
           trace ?w @ invocation (slot (channelOf Stdout) (obj ?w)) (str ''hi '' @ [0x0A]) @
           invocation (p_outputHandler (obj ?w)) (str ''hi '' @ [0x0A]) @
           mirrored (p_shouldBeSilent (obj ?w)) Stdout (str ''hi '' @ [0x0A])"
    unfolding Let_def by blast+
  then show ?thesis
    unfolding trimmed slots using h1 h2 by simp
qed

text \<open>
  C8. Each observer channel (spawn, stdout, stderr, combined) has one slot. After any
  chain of builder calls the slot holds the last callback registered on that channel,
  or what it held before when none was registered. A chunk causes at most one call on
  its stream's channel and at most one on the combined channel, of the callbacks in
  the slots; the spawn notification causes at most one call of the spawn callback.
\<close>

theorem C8_single_slot:
  "slot ch (chain toString calls s) =
     (if spec_registrations ch calls = [] then slot ch s
      else Some (last (spec_registrations ch calls))) \<and>
   trace (onChunk src chunk w) =
     trace w @ invocation (slot (channelOf src) (obj w)) chunk @
     invocation (slot OutputChannel (obj w)) chunk @
     mirrored (p_shouldBeSilent (obj w)) src chunk \<and>
   length (invocation (slot ch s) chunk) \<le> 1 \<and>
   trace (p_onSpawn w) =
     trace w @
     (case slot SpawnChannel (obj w) of
        Some h \<Rightarrow> [CallSpawnHandler h \<lparr> executable = p_executable (obj w),
                     commandArgs = p_commandArgs (obj w), cwd = p_resolvedCwd (obj w) \<rparr>]
      | None \<Rightarrow> [])"
proof -
  have "trace (onChunk src chunk w) =
     trace w @ invocation (slot (channelOf src) (obj w)) chunk @
     invocation (slot OutputChannel (obj w)) chunk @
     mirrored (p_shouldBeSilent (obj w)) src chunk"
    by (cases src) (simp_all add: onChunk_Stdout onChunk_Stderr)
  moreover have "length (invocation (slot ch s) chunk) \<le> 1"
    by (simp add: invocation_def split: option.splits)
  moreover have "trace (p_onSpawn w) =
     trace w @
     (case slot SpawnChannel (obj w) of
        Some h \<Rightarrow> [CallSpawnHandler h \<lparr> executable = p_executable (obj w),
                     commandArgs = p_commandArgs (obj w), cwd = p_resolvedCwd (obj w) \<rparr>]
      | None \<Rightarrow> [])"
    by (simp add: p_onSpawn_def split: option.splits)
  ultimately show ?thesis
    using slot_chain [of ch toString calls s] by blast
qed

theorem C8_single_slot_witness:
  "slot StdoutChannel (chain decimalDigits [OnStdout 7, OnStderr 8, OnStdout 9] demo_command) = Some 9 \<and>
   trace (onChunk Stdout (str ''x'')
     \<lparr> obj = chain decimalDigits [OnStdout 7, OnStderr 8, OnStdout 9] demo_command,
       trace = [], promise = None \<rparr>) =
     [CallOutputHandler 9 (str ''x''), CallOutputHandler 3 (str ''x'')]"
  using C8_single_slot [where ch = StdoutChannel and toString = decimalDigits
      and calls = "[OnStdout 7, OnStderr 8, OnStdout 9]" and s = demo_command
      and src = Stdout and chunk = "str ''x''"
      and w = "\<lparr> obj = chain decimalDigits [OnStdout 7, OnStderr 8, OnStdout 9] demo_command,
                 trace = [], promise = None \<rparr>"]
  by (simp add: exec_defs demo_defs spec_registrations_def List.map_filter_def)



text \<open>
  C10. On a spawn failure (an \<open>"error"\<close> event with a string code, in an execution
  that called \<open>spawn\<close>) the diagnostic line goes through \<open>#onChunk\<close> as a stderr
  chunk: it is appended to the stderr accumulator and to the combined accumulator, the
  registered stderr observer and then the combined observer are called with it, and an
  execution started with \<open>run()\<close> writes it to the stderr stream of the controlling
  process, while one started with \<open>read()\<close> does not.
\<close>

theorem C10_diagnostic_chunk_path:
  assumes "list_all (\<lambda>e. \<not> settles (snd e)) pre"
  shows "(let failure = [(t, ErrorEvent (Object (CodeString errorCode) message))];
              diagnostic = errorCode @ str '': '' @ message;
              w1 = runOrRead resolvePath (CwdReturns processCwd) t0 pre s;
              w2 = runOrRead resolvePath (CwdReturns processCwd) t0 (pre @ failure) s
          in p_stderrContents (obj w2) = p_stderrContents (obj w1) @ diagnostic \<and>
             p_outputContents (obj w2) = p_outputContents (obj w1) @ diagnostic \<and>
             trace w2 = trace w1 @ invocation (p_stderrHandler s) diagnostic @
                          invocation (p_outputHandler s) diagnostic @
                          mirrored (p_shouldBeSilent s) Stderr diagnostic \<and>
             trace (run resolvePath (CwdReturns processCwd) t0 (pre @ failure) s) =
               trace (run resolvePath (CwdReturns processCwd) t0 pre s) @
                 invocation (p_stderrHandler s) diagnostic @
                 invocation (p_outputHandler s) diagnostic @ [ProcessWrite Stderr diagnostic] \<and>
             trace (read resolvePath (CwdReturns processCwd) t0 (pre @ failure) s) =
               trace (read resolvePath (CwdReturns processCwd) t0 pre s) @
                 invocation (p_stderrHandler s) diagnostic @
                 invocation (p_outputHandler s) diagnostic)"
proof -
  let ?ev = "(t, ErrorEvent (Object (CodeString errorCode) message))"
  let ?d = "errorCode @ str '': '' @ message"
  have step: "runOrRead resolvePath (CwdReturns processCwd) t0 (pre @ [?ev]) s' =
          (let w2 = onChunk Stderr ?d
                      ((runOrRead resolvePath (CwdReturns processCwd) t0 pre s')
                         \<lparr>obj := (obj (runOrRead resolvePath (CwdReturns processCwd) t0 pre s'))
                                   \<lparr>p_code := Some SPAWN_MISSING_EXE_CODE\<rparr>\<rparr>)
           in w2\<lparr>promise := Some (Err (commandError t (obj w2)))\<rparr>)" for s' :: "'a FluentCommand"
    using error_pending [OF runOrRead_pending [OF assms], of t errorCode message resolvePath processCwd t0 s']
    by (simp add: runOrRead_append)
  show ?thesis
    by (simp add: Let_def step run_def read_def onChunk_Stderr handlers_runOrRead mirrored_def)
qed

theorem C10_diagnostic_chunk_path_witness:
  "list_all (\<lambda>e. \<not> settles (snd e)) ([] :: (real \<times> procEvent) list) \<and>
   trace (run demo_resolve (CwdReturns (str ''/srv'')) 0
     ([] @ [(2, ErrorEvent (Object (CodeString (str ''ENOENT'')) (str ''spawn tool ENOENT'')))])
     demo_command) =
   [SpawnProcess (str ''tool'') [str ''go'', str ''-n'', str ''3''] (str ''/tmp/work''),
    CallOutputHandler 2 (str ''ENOENT: spawn tool ENOENT''),
    CallOutputHandler 3 (str ''ENOENT: spawn tool ENOENT''),
    ProcessWrite Stderr (str ''ENOENT: spawn tool ENOENT'')] \<and>
   trace (read demo_resolve (CwdReturns (str ''/srv'')) 0
     ([] @ [(2, ErrorEvent (Object (CodeString (str ''ENOENT'')) (str ''spawn tool ENOENT'')))])
     demo_command) =
   [SpawnProcess (str ''tool'') [str ''go'', str ''-n'', str ''3''] (str ''/tmp/work''),
    CallOutputHandler 2 (str ''ENOENT: spawn tool ENOENT''),
    CallOutputHandler 3 (str ''ENOENT: spawn tool ENOENT'')]"
proof -
  have h: "list_all (\<lambda>e. \<not> settles (snd e)) ([] :: (real \<times> procEvent) list)"
    by simp
  have before:
    "trace (run demo_resolve (CwdReturns (str ''/srv'')) 0 [] demo_command) =
       [SpawnProcess (str ''tool'') [str ''go'', str ''-n'', str ''3''] (str ''/tmp/work'')]"
    "trace (read demo_resolve (CwdReturns (str ''/srv'')) 0 [] demo_command) =
       [SpawnProcess (str ''tool'') [str ''go'', str ''-n'', str ''3''] (str ''/tmp/work'')]"
    by code_simp+
  have slots: "invocation (p_stderrHandler demo_command)
                 (str ''ENOENT'' @ str '': '' @ str ''spawn tool ENOENT'') =
               [CallOutputHandler 2 (str ''ENOENT: spawn tool ENOENT'')]"
      "invocation (p_outputHandler demo_command)
                 (str ''ENOENT'' @ str '': '' @ str ''spawn tool ENOENT'') =
               [CallOutputHandler 3 (str ''ENOENT: spawn tool ENOENT'')]"
      "str ''ENOENT'' @ str '': '' @ str ''spawn tool ENOENT'' = str ''ENOENT: spawn tool ENOENT''"
    by code_simp+
  from C10_diagnostic_chunk_path [OF h, where resolvePath = demo_resolve
      and processCwd = "str ''/srv''" and ?t0.0 = 0
      and s = demo_command and errorCode = "str ''ENOENT''"
      and message = "str ''spawn tool ENOENT''" and t = 2]
  show ?thesis
    using h before slots by (simp add: Let_def)
qed

end
